theory Spec2Isabelle
  imports Complex_Main
begin

section \<open>Numbers, vectors and bodies\<close>

text \<open>
  Every TypeScript \<open>number\<close> of the engine is modelled as a real: the arithmetic is the
  exact one, without the rounding of IEEE doubles and without NaN or the infinities.
  The one exception is the mission seed, which indexes an array and is a natural number.
\<close>

type_synonym number = real

definition hypot :: "number \<Rightarrow> number \<Rightarrow> number" where
  "hypot a b = sqrt (a * a + b * b)"

text \<open>\<open>Math.round\<close>: the nearest integer, a tie going up.\<close>

definition js_round :: "number \<Rightarrow> number" where
  "js_round v = of_int \<lfloor>v + 1 / 2\<rfloor>"

definition js_floor :: "number \<Rightarrow> number" where
  "js_floor v = of_int \<lfloor>v\<rfloor>"

text \<open>\<open>Number.isFinite\<close>: a real is always finite.\<close>

definition isFinite :: "number \<Rightarrow> bool" where
  "isFinite v = True"

definition digitChar :: "nat \<Rightarrow> char" where
  "digitChar n = ''0123456789'' ! n"

fun showNat :: "nat \<Rightarrow> string" where
  "showNat n = (if n < 10 then [digitChar n] else showNat (n div 10) @ [digitChar (n mod 10)])"

declare showNat.simps [simp del]

text \<open>
  The numbers the engine prints (a level, a reward, rounded points) are results of
  \<open>Math.floor\<close> or \<open>Math.round\<close>, so they print as integers.
\<close>

definition showNumber :: "number \<Rightarrow> string" where
  "showNumber v = (if v < 0 then ''-'' @ showNat (nat (- \<lfloor>v\<rfloor>)) else showNat (nat \<lfloor>v\<rfloor>))"

datatype Difficulty = Easy | Normal | Hard
datatype ControlSide = LeftSide | RightSide
datatype RocketSkin = Classic | Neon | Comet | Solar
datatype MissionKind = MissionEarth | MissionMars | MissionSun | Survive
datatype CollectibleId = Earth | Mars
datatype ExtraPlanetId = Mercury | Venus | Saturn | Uranus | Neptune
datatype PlanetImpactSource = Core CollectibleId | Extra ExtraPlanetId | Jupiter | Sun
datatype EventKey = EvCollect | EvHit | EvMission | EvBadge | EvLevel | EvUnlock | EvShield

record Vector =
  x :: number
  y :: number

text \<open>The fields the home portal shares with the moving bodies.\<close>

record Body = Vector +
  radius :: number
  visible :: bool
  cooldownMs :: number
  impactMs :: number

record DynamicEntity = Body +
  vx :: number
  vy :: number

record Collectible = DynamicEntity +
  cid :: CollectibleId
  points :: number
  threshold :: number

record HomePortal = Body +
  points :: number
  threshold :: number

record Hazard = DynamicEntity +
  active :: bool

record ExtraPlanet = DynamicEntity +
  pid :: ExtraPlanetId
  points :: number
  speedFactor :: number

record ParentSettings =
  soundVolume :: number
  vibrationEnabled :: bool
  sessionReminderEnabled :: bool
  sessionReminderMs :: number

record MissionState =
  mid :: string
  label :: string
  kind :: MissionKind
  target :: number
  progress :: number
  rewardPoints :: number
  timeLimitMs :: number
  timeLeftMs :: number

record PlanetCatchStats =
  mercury :: number
  venus :: number
  earth :: number
  mars :: number
  jupiter :: number
  saturn :: number
  uranus :: number
  neptune :: number
  sun :: number

record EventSignal =
  collect :: number
  hit :: number
  mission :: number
  badge :: number
  level :: number
  unlock :: number
  shield :: number

record DifficultyConfig =
  maxSpeed :: number
  cruiseSpeed :: number
  windThreshold :: number
  steeringResponse :: number
  idleDamping :: number
  minDriftSpeed :: number
  playerBounceDamping :: number
  secondThreshold :: number
  thirdThreshold :: number
  sunThreshold :: number
  earthPoints :: number
  marsPoints :: number
  sunPoints :: number
  baseLives :: number
  baseShieldCharges :: number
  hazardUnlockLevel :: number
  hazardSpeedMultiplier :: number
  planetSpawnSpeed :: number
  hazardSpawnSpeed :: number
  planetMaxSpeed :: number
  hazardMaxSpeed :: number
  planetLevelBoostPerLevel :: number
  hazardLevelBoostPerLevel :: number
  impactImpulseScale :: number
  solarInfluence :: number
  levelScoreStep :: number
  missionTargetScale :: number
  missionRewardScale :: number

record GameState =
  arenaWidth :: number
  arenaHeight :: number
  difficulty :: Difficulty
  controlSide :: ControlSide
  input :: Vector
  lastDirection :: Vector
  player :: DynamicEntity
  spark :: Collectible
  comet :: Collectible
  home :: HomePortal
  hazard :: Hazard
  extraPlanets :: "ExtraPlanet list"
  score :: number
  highScore :: number
  combo :: number
  comboTimerMs :: number
  level :: number
  lives :: number
  shieldCharges :: number
  invulnerabilityMs :: number
  secondChanceUsed :: bool
  windMode :: bool
  isPaused :: bool
  isGameOver :: bool
  announcement :: string
  announcementTimerMs :: number
  planetChainMs :: number
  missionsCompleted :: number
  missionSeed :: nat
  currentMission :: MissionState
  planetCatches :: PlanetCatchStats
  learningFact :: string
  learningFactTimerMs :: number
  unlockedSkins :: "RocketSkin list"
  selectedSkin :: RocketSkin
  badges :: "string list"
  settings :: ParentSettings
  sessionElapsedMs :: number
  showBreakReminder :: bool
  eventSignal :: EventSignal

section \<open>Constants and tables\<close>

definition DEFAULT_ARENA_WIDTH :: number where "DEFAULT_ARENA_WIDTH = 960"
definition DEFAULT_ARENA_HEIGHT :: number where "DEFAULT_ARENA_HEIGHT = 540"
definition PLAYER_RADIUS :: number where "PLAYER_RADIUS = 18"
definition HOME_RADIUS :: number where "HOME_RADIUS = 34"
definition HAZARD_RADIUS :: number where "HAZARD_RADIUS = 21"
definition COMBO_WINDOW_MS :: number where "COMBO_WINDOW_MS = 3200"
definition SHIELD_INVULNERABILITY_MS :: number where "SHIELD_INVULNERABILITY_MS = 1800"
definition HIT_INVULNERABILITY_MS :: number where "HIT_INVULNERABILITY_MS = 1300"
definition MAX_SOUND_VOLUME :: number where "MAX_SOUND_VOLUME = 0.6"
definition DEFAULT_SESSION_REMINDER_MS :: number where "DEFAULT_SESSION_REMINDER_MS = 20 * 60 * 1000"

definition easyConfig :: DifficultyConfig where
  "easyConfig = \<lparr> maxSpeed = 7, cruiseSpeed = 6.2, windThreshold = 4, steeringResponse = 0.38,
     idleDamping = 0.92, minDriftSpeed = 1, playerBounceDamping = 0.94, secondThreshold = 0,
     thirdThreshold = 0, sunThreshold = 0, earthPoints = 14, marsPoints = 22, sunPoints = 110,
     baseLives = 5, baseShieldCharges = 3, hazardUnlockLevel = 3, hazardSpeedMultiplier = 0.88,
     planetSpawnSpeed = 1.35, hazardSpawnSpeed = 1.7, planetMaxSpeed = 2.25, hazardMaxSpeed = 2.8,
     planetLevelBoostPerLevel = 0.018, hazardLevelBoostPerLevel = 0.03, impactImpulseScale = 0.55,
     solarInfluence = 0.5, levelScoreStep = 230, missionTargetScale = 0.85,
     missionRewardScale = 1 \<rparr>"

definition normalConfig :: DifficultyConfig where
  "normalConfig = \<lparr> maxSpeed = 8, cruiseSpeed = 7.2, windThreshold = 4.8, steeringResponse = 0.34,
     idleDamping = 0.9, minDriftSpeed = 1.15, playerBounceDamping = 0.9, secondThreshold = 0,
     thirdThreshold = 0, sunThreshold = 0, earthPoints = 16, marsPoints = 24, sunPoints = 120,
     baseLives = 4, baseShieldCharges = 2, hazardUnlockLevel = 2, hazardSpeedMultiplier = 1,
     planetSpawnSpeed = 1.65, hazardSpawnSpeed = 2.1, planetMaxSpeed = 2.8, hazardMaxSpeed = 3.4,
     planetLevelBoostPerLevel = 0.022, hazardLevelBoostPerLevel = 0.036, impactImpulseScale = 0.64,
     solarInfluence = 0.62, levelScoreStep = 200, missionTargetScale = 1,
     missionRewardScale = 1.12 \<rparr>"

definition hardConfig :: DifficultyConfig where
  "hardConfig = \<lparr> maxSpeed = 9.3, cruiseSpeed = 8.1, windThreshold = 5.6, steeringResponse = 0.31,
     idleDamping = 0.88, minDriftSpeed = 1.2, playerBounceDamping = 0.86, secondThreshold = 0,
     thirdThreshold = 0, sunThreshold = 0, earthPoints = 18, marsPoints = 30, sunPoints = 145,
     baseLives = 3, baseShieldCharges = 1, hazardUnlockLevel = 1, hazardSpeedMultiplier = 1.2,
     planetSpawnSpeed = 2.1, hazardSpawnSpeed = 2.7, planetMaxSpeed = 3.5, hazardMaxSpeed = 4.2,
     planetLevelBoostPerLevel = 0.028, hazardLevelBoostPerLevel = 0.045, impactImpulseScale = 0.74,
     solarInfluence = 0.8, levelScoreStep = 170, missionTargetScale = 1.2,
     missionRewardScale = 1.28 \<rparr>"

fun DIFFICULTY_CONFIGS :: "Difficulty \<Rightarrow> DifficultyConfig" where
  "DIFFICULTY_CONFIGS Easy = easyConfig"
| "DIFFICULTY_CONFIGS Normal = normalConfig"
| "DIFFICULTY_CONFIGS Hard = hardConfig"

definition getDifficultyConfig :: "Difficulty \<Rightarrow> DifficultyConfig" where
  "getDifficultyConfig d = DIFFICULTY_CONFIGS d"

fun PLANET_FACTS :: "PlanetImpactSource \<Rightarrow> string" where
  "PLANET_FACTS (Extra Mercury) = ''Merkur, Gunes Sistemindeki en kucuk ve Gunes'e en yakin gezegendir.''"
| "PLANET_FACTS (Extra Venus) = ''Venus en sicak gezegendir; kalin atmosferi isi hapseder.''"
| "PLANET_FACTS (Core Earth) = ''Dunya, yuzeyinde sivisi halde su bulunan tek bilinen gezegendir.''"
| "PLANET_FACTS (Core Mars) = ''Mars kizil gorunur; sebebi yuzeyindeki demir oksittir.''"
| "PLANET_FACTS Jupiter = ''Jupiter en buyuk gezegendir ve Buyuk Kirmizi Leke dev bir firtinadir.''"
| "PLANET_FACTS (Extra Saturn) = ''Saturn, buz ve toz parcaciklarindan olusan belirgin halkalara sahiptir.''"
| "PLANET_FACTS (Extra Uranus) = ''Uranus neredeyse yana yatmis ekseniyle diger gezegenlerden ayrilir.''"
| "PLANET_FACTS (Extra Neptune) = ''Neptune cok uzak ve cok ruzgarli bir buz dev gezegendir.''"
| "PLANET_FACTS Sun = ''Gunes, Gunes Sistemi kutlesinin neredeyse tamamina sahiptir.''"

text \<open>A blueprint is (id, radius, points, speedFactor).\<close>

definition EXTRA_PLANET_BLUEPRINTS :: "(ExtraPlanetId \<times> number \<times> number \<times> number) list" where
  "EXTRA_PLANET_BLUEPRINTS =
     [(Mercury, 9, 10, 1.35), (Venus, 14, 14, 0.82), (Saturn, 18, 24, 0.96),
      (Uranus, 15, 18, 0.88), (Neptune, 16, 22, 1.08)]"

text \<open>A mission template is (kind, label, baseTarget, baseReward, timeMs).\<close>

definition MISSION_TEMPLATES :: "(MissionKind \<times> string \<times> number \<times> number \<times> number) list" where
  "MISSION_TEMPLATES =
     [(MissionEarth, ''2 Dunya yakala'', 2, 50, 34000),
      (MissionMars, ''2 Mars yakala'', 2, 75, 36000),
      (MissionSun, ''1 Gunes bonusu al'', 1, 95, 35000),
      (Survive, ''22 saniye hayatta kal'', 22, 70, 30000)]"

section \<open>Creation of bodies, missions and the initial state\<close>

text \<open>
  \<open>Math.random\<close> is an oracle: a function from the index of a draw to its value, which
  every theorem leaves arbitrary. A function that draws takes the oracle and the index of
  its first draw.
\<close>

type_synonym rng = "nat \<Rightarrow> number"

definition randomBetween :: "number \<Rightarrow> number \<Rightarrow> number \<Rightarrow> number" where
  "randomBetween mn mx u = u * (mx - mn) + mn"

definition randomPosition :: "number \<Rightarrow> number \<Rightarrow> number \<Rightarrow> rng \<Rightarrow> nat \<Rightarrow> Vector" where
  "randomPosition width height rad rnd k =
     \<lparr> x = randomBetween rad (max rad (width - rad)) (rnd k),
       y = randomBetween rad (max rad (height - rad)) (rnd (k + 1)) \<rparr>"

definition clampPosition :: "number \<Rightarrow> number \<Rightarrow> number \<Rightarrow> number" where
  "clampPosition v mn mx = max mn (min mx v)"

definition getDistance :: "'a Vector_scheme \<Rightarrow> 'b Vector_scheme \<Rightarrow> number" where
  "getDistance a b = hypot (x a - x b) (y a - y b)"

text \<open>
  The stored value is \<open>None\<close> when there is no window or the stored text is not a finite
  number, and the parsed number otherwise.
\<close>

definition loadStoredHighScore :: "number option \<Rightarrow> number" where
  "loadStoredHighScore stored = (case stored of None \<Rightarrow> 0 | Some parsed \<Rightarrow> max 0 (js_floor parsed))"

definition createCollectible ::
  "CollectibleId \<Rightarrow> number \<Rightarrow> number \<Rightarrow> number \<Rightarrow> number \<Rightarrow> number \<Rightarrow> number \<Rightarrow> rng \<Rightarrow> nat \<Rightarrow> Collectible" where
  "createCollectible i pts thr rad width height spawnSpeed rnd k =
     (let position = randomPosition width height rad rnd k in
      \<lparr> x = x position, y = y position, radius = rad, visible = False, cooldownMs = 0,
        impactMs = 0,
        vx = randomBetween (- spawnSpeed) spawnSpeed (rnd (k + 2)),
        vy = randomBetween (- spawnSpeed) spawnSpeed (rnd (k + 3)),
        cid = i, Collectible.points = pts, Collectible.threshold = thr \<rparr>)"

definition createHome :: "number \<Rightarrow> number \<Rightarrow> number \<Rightarrow> number \<Rightarrow> rng \<Rightarrow> nat \<Rightarrow> HomePortal" where
  "createHome pts thr width height rnd k =
     (let position = randomPosition width height HOME_RADIUS rnd k in
      \<lparr> x = x position, y = y position, radius = HOME_RADIUS, visible = False, cooldownMs = 0,
        impactMs = 0, HomePortal.points = pts, HomePortal.threshold = thr \<rparr>)"

definition createHazard :: "number \<Rightarrow> number \<Rightarrow> number \<Rightarrow> rng \<Rightarrow> nat \<Rightarrow> Hazard" where
  "createHazard width height spawnSpeed rnd k =
     (let position = randomPosition width height HAZARD_RADIUS rnd k in
      \<lparr> x = x position, y = y position, radius = HAZARD_RADIUS, visible = False, cooldownMs = 0,
        impactMs = 0,
        vx = randomBetween (- spawnSpeed) spawnSpeed (rnd (k + 2)),
        vy = randomBetween (- spawnSpeed) spawnSpeed (rnd (k + 3)),
        active = False \<rparr>)"

definition createExtraPlanet ::
  "number \<Rightarrow> number \<Rightarrow> number \<Rightarrow> rng \<Rightarrow> nat \<Rightarrow> (ExtraPlanetId \<times> number \<times> number \<times> number) \<Rightarrow> ExtraPlanet" where
  "createExtraPlanet width height baseSpawnSpeed rnd k planet =
     (case planet of (i, rad, pts, factor) \<Rightarrow>
        let position = randomPosition width height rad rnd k;
            speed = baseSpawnSpeed * factor in
        \<lparr> x = x position, y = y position, radius = rad, visible = True, cooldownMs = 0,
          impactMs = 0,
          vx = randomBetween (- speed) speed (rnd (k + 2)),
          vy = randomBetween (- speed) speed (rnd (k + 3)),
          pid = i, ExtraPlanet.points = pts, speedFactor = factor \<rparr>)"

text \<open>The blueprints are mapped in order, each planet drawing four numbers.\<close>

definition createExtraPlanets :: "number \<Rightarrow> number \<Rightarrow> number \<Rightarrow> rng \<Rightarrow> nat \<Rightarrow> ExtraPlanet list" where
  "createExtraPlanets width height baseSpawnSpeed rnd k =
     map (\<lambda>(i, planet). createExtraPlanet width height baseSpawnSpeed rnd (k + 4 * i) planet)
       (enumerate 0 EXTRA_PLANET_BLUEPRINTS)"

definition createMission :: "nat \<Rightarrow> Difficulty \<Rightarrow> MissionState" where
  "createMission seed d =
     (case MISSION_TEMPLATES ! (seed mod length MISSION_TEMPLATES) of
        (k, lbl, baseTarget, baseReward, timeMs) \<Rightarrow>
          let config = getDifficultyConfig d;
              tgt = max 1 (js_round (baseTarget * missionTargetScale config));
              reward = max 25 (js_round (baseReward * missionRewardScale config)) in
          \<lparr> mid = ''mission-'' @ showNat seed, label = lbl, kind = k, target = tgt, progress = 0,
            rewardPoints = reward, timeLimitMs = timeMs, timeLeftMs = timeMs \<rparr>)"

definition emptyEventSignal :: EventSignal where
  "emptyEventSignal =
     \<lparr> collect = 0, hit = 0, mission = 0, badge = 0, EventSignal.level = 0, unlock = 0, shield = 0 \<rparr>"

definition emptyCatches :: PlanetCatchStats where
  "emptyCatches =
     \<lparr> mercury = 0, venus = 0, earth = 0, mars = 0, jupiter = 0, saturn = 0, uranus = 0,
       neptune = 0, sun = 0 \<rparr>"

definition zeroVector :: Vector where
  "zeroVector = \<lparr> x = 0, y = 0 \<rparr>"

definition createInitialState :: "number option \<Rightarrow> rng \<Rightarrow> GameState" where
  "createInitialState stored rnd =
     (let d = Normal; config = getDifficultyConfig d in
      \<lparr> arenaWidth = DEFAULT_ARENA_WIDTH,
        arenaHeight = DEFAULT_ARENA_HEIGHT,
        difficulty = d,
        controlSide = LeftSide,
        input = zeroVector,
        lastDirection = zeroVector,
        player = \<lparr> x = DEFAULT_ARENA_WIDTH / 2, y = DEFAULT_ARENA_HEIGHT / 2,
                   radius = PLAYER_RADIUS, visible = True, cooldownMs = 0, impactMs = 0,
                   vx = 0, vy = 0 \<rparr>,
        spark = createCollectible Earth (earthPoints config) (secondThreshold config) 16
                  DEFAULT_ARENA_WIDTH DEFAULT_ARENA_HEIGHT (planetSpawnSpeed config) rnd 0,
        comet = createCollectible Mars (marsPoints config) (thirdThreshold config) 13
                  DEFAULT_ARENA_WIDTH DEFAULT_ARENA_HEIGHT (planetSpawnSpeed config) rnd 4,
        home = createHome (sunPoints config) (sunThreshold config)
                  DEFAULT_ARENA_WIDTH DEFAULT_ARENA_HEIGHT rnd 8,
        hazard = createHazard DEFAULT_ARENA_WIDTH DEFAULT_ARENA_HEIGHT (hazardSpawnSpeed config) rnd 10,
        extraPlanets = createExtraPlanets DEFAULT_ARENA_WIDTH DEFAULT_ARENA_HEIGHT
                  (planetSpawnSpeed config) rnd 14,
        score = 0,
        highScore = loadStoredHighScore stored,
        combo = 1,
        comboTimerMs = 0,
        level = 1,
        lives = baseLives config,
        shieldCharges = baseShieldCharges config,
        invulnerabilityMs = 0,
        secondChanceUsed = False,
        windMode = False,
        isPaused = False,
        isGameOver = False,
        announcement = ''Hazir! Roketini yon tuslariyla hareket ettir.'',
        announcementTimerMs = 2200,
        planetChainMs = 0,
        missionsCompleted = 0,
        missionSeed = 0,
        currentMission = createMission 0 d,
        planetCatches = emptyCatches,
        learningFact = '''',
        learningFactTimerMs = 0,
        unlockedSkins = [Classic],
        selectedSkin = Classic,
        badges = [],
        settings = \<lparr> soundVolume = 0.45, vibrationEnabled = True, sessionReminderEnabled = True,
                     sessionReminderMs = DEFAULT_SESSION_REMINDER_MS \<rparr>,
        sessionElapsedMs = 0,
        showBreakReminder = False,
        eventSignal = emptyEventSignal \<rparr>)"

section \<open>Announcements, events, unlocks and scoring\<close>

definition setAnnouncement :: "GameState \<Rightarrow> string \<Rightarrow> number \<Rightarrow> GameState" where
  "setAnnouncement s text timerMs = s\<lparr>announcement := text, announcementTimerMs := timerMs\<rparr>"

definition refreshHighScore :: "GameState \<Rightarrow> GameState" where
  "refreshHighScore s = (if score s > highScore s then s\<lparr>highScore := score s\<rparr> else s)"

fun bumpEvent :: "EventKey \<Rightarrow> EventSignal \<Rightarrow> EventSignal" where
  "bumpEvent EvCollect e = e\<lparr>collect := collect e + 1\<rparr>"
| "bumpEvent EvHit e = e\<lparr>hit := hit e + 1\<rparr>"
| "bumpEvent EvMission e = e\<lparr>mission := mission e + 1\<rparr>"
| "bumpEvent EvBadge e = e\<lparr>badge := badge e + 1\<rparr>"
| "bumpEvent EvLevel e = e\<lparr>EventSignal.level := EventSignal.level e + 1\<rparr>"
| "bumpEvent EvUnlock e = e\<lparr>unlock := unlock e + 1\<rparr>"
| "bumpEvent EvShield e = e\<lparr>shield := shield e + 1\<rparr>"

definition incrementEvent :: "GameState \<Rightarrow> EventKey \<Rightarrow> GameState" where
  "incrementEvent s key = s\<lparr>eventSignal := bumpEvent key (eventSignal s)\<rparr>"

definition unlockSkin :: "GameState \<Rightarrow> RocketSkin \<Rightarrow> string \<Rightarrow> GameState" where
  "unlockSkin s skin message =
     (if skin \<in> set (unlockedSkins s) then s
      else setAnnouncement (incrementEvent (s\<lparr>unlockedSkins := unlockedSkins s @ [skin]\<rparr>) EvUnlock)
             message 1700)"

definition grantBadge :: "GameState \<Rightarrow> string \<Rightarrow> string \<Rightarrow> GameState" where
  "grantBadge s badgeId message =
     (if badgeId \<in> set (badges s) then s
      else setAnnouncement (incrementEvent (s\<lparr>badges := badges s @ [badgeId]\<rparr>) EvBadge)
             message 1700)"

definition setLearningFact :: "GameState \<Rightarrow> PlanetImpactSource \<Rightarrow> GameState" where
  "setLearningFact s key = s\<lparr>learningFact := PLANET_FACTS key, learningFactTimerMs := 6200\<rparr>"

definition maybeLevelUp :: "GameState \<Rightarrow> GameState" where
  "maybeLevelUp s =
     (let config = getDifficultyConfig (difficulty s);
          nextLevel = js_floor (score s / levelScoreStep config) + 1 in
      if nextLevel > GameState.level s then
        let s1 = s\<lparr>GameState.level := nextLevel\<rparr>;
            s2 = s1\<lparr>shieldCharges := min 5 (shieldCharges s1 + 1)\<rparr>;
            s3 = incrementEvent s2 EvLevel in
        setAnnouncement s3 (''Seviye '' @ showNumber (GameState.level s3) @ ''!'') 1400
      else s)"

definition caughtAllPlanets :: "PlanetCatchStats \<Rightarrow> bool" where
  "caughtAllPlanets c \<longleftrightarrow>
     mercury c > 0 \<and> venus c > 0 \<and> earth c > 0 \<and> mars c > 0 \<and> jupiter c > 0 \<and>
     saturn c > 0 \<and> uranus c > 0 \<and> neptune c > 0"

definition checkUnlocksAndBadges :: "GameState \<Rightarrow> GameState" where
  "checkUnlocksAndBadges s =
     (let s1 = (if score s \<ge> 160 then unlockSkin s Neon ''Yeni roket skini acildi: Neon!'' else s);
          s2 = (if missionsCompleted s1 \<ge> 3
                then unlockSkin s1 Comet ''Yeni roket skini acildi: Kuyruklu Yildiz!'' else s1);
          s3 = (if sun (planetCatches s2) \<ge> 5
                then unlockSkin s2 Solar ''Yeni roket skini acildi: Solar Core!'' else s2);
          s4 = (if missionsCompleted s3 \<ge> 1
                then grantBadge s3 ''mission-starter'' ''Rozet acildi: Gorev Baslangici'' else s3);
          s5 = (if mars (planetCatches s4) \<ge> 6
                then grantBadge s4 ''mars-collector'' ''Rozet acildi: Mars Koleksiyoncusu'' else s4);
          s6 = (if score s5 \<ge> 500
                then grantBadge s5 ''score-500'' ''Rozet acildi: 500+ Puan'' else s5);
          s7 = (if caughtAllPlanets (planetCatches s6)
                then grantBadge s6 ''solar-explorer'' ''Rozet acildi: Gunes Sistemi Kesifcisi'' else s6) in
      if sessionElapsedMs s7 \<ge> 3 * 60 * 1000
      then grantBadge s7 ''space-marathon'' ''Rozet acildi: Uzay Maratoncusu'' else s7)"

definition createNextMission :: "GameState \<Rightarrow> GameState" where
  "createNextMission s =
     (let s1 = s\<lparr>missionSeed := missionSeed s + 1\<rparr> in
      s1\<lparr>currentMission := createMission (missionSeed s1) (difficulty s1)\<rparr>)"

definition completeMission :: "GameState \<Rightarrow> GameState" where
  "completeMission s =
     (let reward = rewardPoints (currentMission s);
          s1 = maybeLevelUp (refreshHighScore (s\<lparr>score := score s + reward\<rparr>));
          s2 = s1\<lparr>missionsCompleted := missionsCompleted s1 + 1\<rparr>;
          s3 = s2\<lparr>shieldCharges := min 5 (shieldCharges s2 + 1)\<rparr>;
          s4 = s3\<lparr>lives := min (baseLives (getDifficultyConfig (difficulty s3)) + 1) (lives s3 + 1)\<rparr>;
          s5 = setAnnouncement (incrementEvent s4 EvMission)
                 (''Gorev tamamlandi! +'' @ showNumber reward) 1600 in
      createNextMission (checkUnlocksAndBadges s5))"

definition failMission :: "GameState \<Rightarrow> GameState" where
  "failMission s = createNextMission (setAnnouncement s ''Gorev suresi doldu. Yeni gorev geldi!'' 1500)"

definition progressMission :: "GameState \<Rightarrow> MissionKind \<Rightarrow> number \<Rightarrow> GameState" where
  "progressMission s k amount =
     (if kind (currentMission s) \<noteq> k then s
      else
        let m = currentMission s;
            s1 = s\<lparr>currentMission := m\<lparr>progress := min (target m) (progress m + amount)\<rparr>\<rparr> in
        if progress (currentMission s1) \<ge> target (currentMission s1) then completeMission s1 else s1)"

definition collectPoints :: "GameState \<Rightarrow> number \<Rightarrow> string \<Rightarrow> GameState" where
  "collectPoints s pts text =
     (let safePoints = max 0 (js_round pts);
          s1 = maybeLevelUp (refreshHighScore (s\<lparr>score := score s + safePoints\<rparr>));
          s2 = s1\<lparr>combo := min 9 (combo s1 + 1)\<rparr>;
          s3 = s2\<lparr>comboTimerMs := COMBO_WINDOW_MS\<rparr>;
          s4 = setAnnouncement (incrementEvent s3 EvCollect) (text @ '' +'' @ showNumber safePoints) 1000 in
      checkUnlocksAndBadges s4)"

section \<open>Impacts, gravity and motion\<close>

definition getPlanetSourcePosition :: "GameState \<Rightarrow> PlanetImpactSource \<Rightarrow> Vector" where
  "getPlanetSourcePosition s source =
     (case source of
        Core Earth \<Rightarrow> \<lparr> x = x (spark s), y = y (spark s) \<rparr>
      | Core Mars \<Rightarrow> \<lparr> x = x (comet s), y = y (comet s) \<rparr>
      | Jupiter \<Rightarrow> \<lparr> x = x (hazard s), y = y (hazard s) \<rparr>
      | Sun \<Rightarrow> \<lparr> x = x (home s), y = y (home s) \<rparr>
      | Extra i \<Rightarrow>
          (case find (\<lambda>item. pid item = i) (extraPlanets s) of
             Some planet \<Rightarrow> \<lparr> x = x planet, y = y planet \<rparr>
           | None \<Rightarrow> \<lparr> x = x (player s), y = y (player s) \<rparr>))"

text \<open>The body of the impulse loop of \<open>triggerPlanetImpact\<close>, for one moving body.\<close>

definition impactPush :: "Vector \<Rightarrow> number \<Rightarrow> 'a DynamicEntity_scheme \<Rightarrow> 'a DynamicEntity_scheme" where
  "impactPush sourcePosition scale entity =
     (let dx = x entity - x sourcePosition;
          dy = y entity - y sourcePosition;
          distance = hypot dx dy in
      if distance < 1 then entity
      else
        let nx = dx / distance;
            ny = dy / distance;
            impulse = max 0.14 (2.1 / max 1 (distance / 45)) * scale in
        entity\<lparr>vx := vx entity + nx * impulse, vy := vy entity + ny * impulse\<rparr>)"

definition flash :: "bool \<Rightarrow> number \<Rightarrow> number" where
  "flash isSource old = (if isSource then 420 else max old 180)"

definition triggerPlanetImpact :: "GameState \<Rightarrow> PlanetImpactSource \<Rightarrow> GameState" where
  "triggerPlanetImpact s source =
     (let config = getDifficultyConfig (difficulty s);
          sourcePosition = getPlanetSourcePosition s source;
          s1 = s\<lparr>spark := (spark s)\<lparr>impactMs := flash (source = Core Earth) (impactMs (spark s))\<rparr>,
                 comet := (comet s)\<lparr>impactMs := flash (source = Core Mars) (impactMs (comet s))\<rparr>,
                 home := (home s)\<lparr>impactMs := flash (source = Sun) (impactMs (home s))\<rparr>,
                 hazard := (hazard s)\<lparr>impactMs := flash (source = Jupiter) (impactMs (hazard s))\<rparr>,
                 extraPlanets :=
                   map (\<lambda>planet. planet\<lparr>impactMs := flash (Extra (pid planet) = source) (impactMs planet)\<rparr>)
                     (extraPlanets s),
                 planetChainMs := 220\<rparr> in
      s1\<lparr>spark := impactPush sourcePosition (impactImpulseScale config) (spark s1),
         comet := impactPush sourcePosition (impactImpulseScale config) (comet s1),
         hazard := impactPush sourcePosition (impactImpulseScale config) (hazard s1),
         extraPlanets := map (impactPush sourcePosition (impactImpulseScale config)) (extraPlanets s1)\<rparr>)"

text \<open>The body of the loop of \<open>applySolarInfluence\<close>, for one moving body.\<close>

definition solarPull :: "number \<Rightarrow> number \<Rightarrow> number \<Rightarrow> number \<Rightarrow> 'a DynamicEntity_scheme \<Rightarrow> 'a DynamicEntity_scheme" where
  "solarPull homeX homeY frameScale influence entity =
     (let dx = homeX - x entity;
          dy = homeY - y entity;
          distance = hypot dx dy in
      if distance < 1 then entity
      else
        let nx = dx / distance;
            ny = dy / distance;
            gravity = min 0.18 (1600 / max 1100 (distance * distance)) * frameScale * influence in
        entity\<lparr>vx := vx entity + nx * gravity, vy := vy entity + ny * gravity\<rparr>)"

definition applySolarInfluence :: "GameState \<Rightarrow> number \<Rightarrow> GameState" where
  "applySolarInfluence s frameScale =
     (let config = getDifficultyConfig (difficulty s);
          hx = x (home s);
          hy = y (home s) in
      s\<lparr>spark := solarPull hx hy frameScale (solarInfluence config) (spark s),
        comet := solarPull hx hy frameScale (solarInfluence config) (comet s),
        hazard := solarPull hx hy frameScale (solarInfluence config) (hazard s),
        extraPlanets := map (solarPull hx hy frameScale (solarInfluence config)) (extraPlanets s)\<rparr>)"

definition clampVelocity :: "'a DynamicEntity_scheme \<Rightarrow> number \<Rightarrow> 'a DynamicEntity_scheme" where
  "clampVelocity entity maxSp =
     (let speed = hypot (vx entity) (vy entity) in
      if speed \<le> maxSp \<or> speed \<le> 0 then entity
      else
        let ratio = maxSp / speed in
        entity\<lparr>vx := vx entity * ratio, vy := vy entity * ratio\<rparr>)"

definition bounceInsideArena ::
  "'a DynamicEntity_scheme \<Rightarrow> number \<Rightarrow> number \<Rightarrow> number \<Rightarrow> number \<Rightarrow> 'a DynamicEntity_scheme" where
  "bounceInsideArena entity width height movementScale bounceDamping =
     (let e1 = entity\<lparr>x := x entity + vx entity * movementScale,
                      y := y entity + vy entity * movementScale\<rparr>;
          minX = radius e1;
          maxX = max (radius e1) (width - radius e1);
          minY = radius e1;
          maxY = max (radius e1) (height - radius e1);
          e2 = (if x e1 \<le> minX then e1\<lparr>x := minX, vx := \<bar>vx e1\<bar> * bounceDamping\<rparr> else e1);
          e3 = (if x e2 \<ge> maxX then e2\<lparr>x := maxX, vx := - \<bar>vx e2\<bar> * bounceDamping\<rparr> else e2);
          e4 = (if y e3 \<le> minY then e3\<lparr>y := minY, vy := \<bar>vy e3\<bar> * bounceDamping\<rparr> else e3) in
      if y e4 \<ge> maxY then e4\<lparr>y := maxY, vy := - \<bar>vy e4\<bar> * bounceDamping\<rparr> else e4)"

definition resolvePlanetPair :: "DynamicEntity \<Rightarrow> DynamicEntity \<Rightarrow> DynamicEntity \<times> DynamicEntity" where
  "resolvePlanetPair first second =
     (if \<not> visible first \<or> \<not> visible second then (first, second)
      else
        let dx = x second - x first;
            dy = y second - y first;
            distance = hypot dx dy;
            minDistance = radius first + radius second in
        if distance \<le> 0.001 \<or> distance \<ge> minDistance then (first, second)
        else
          let nx = dx / distance;
              ny = dy / distance;
              overlap = minDistance - distance;
              f1 = first\<lparr>x := x first - nx * overlap * 0.5, y := y first - ny * overlap * 0.5\<rparr>;
              g1 = second\<lparr>x := x second + nx * overlap * 0.5, y := y second + ny * overlap * 0.5\<rparr>;
              firstNormalVelocity = vx f1 * nx + vy f1 * ny;
              secondNormalVelocity = vx g1 * nx + vy g1 * ny;
              relativeVelocity = secondNormalVelocity - firstNormalVelocity;
              bounce = relativeVelocity * 0.9;
              f2 = (if relativeVelocity \<le> 0
                    then f1\<lparr>vx := vx f1 + nx * bounce, vy := vy f1 + ny * bounce\<rparr> else f1);
              g2 = (if relativeVelocity \<le> 0
                    then g1\<lparr>vx := vx g1 - nx * bounce, vy := vy g1 - ny * bounce\<rparr> else g1) in
          (f2\<lparr>impactMs := max (impactMs f2) 170\<rparr>, g2\<lparr>impactMs := max (impactMs g2) 170\<rparr>))"

text \<open>
  \<open>getMovingPlanets\<close> is an array of references to the bodies of the state. The pair
  loop works on the fields they share, read out here and written back afterwards.
\<close>

definition asDynamic :: "'a DynamicEntity_scheme \<Rightarrow> DynamicEntity" where
  "asDynamic e = \<lparr> x = x e, y = y e, radius = radius e, visible = visible e,
     cooldownMs = cooldownMs e, impactMs = impactMs e, vx = vx e, vy = vy e \<rparr>"

definition putDynamic :: "DynamicEntity \<Rightarrow> 'a DynamicEntity_scheme \<Rightarrow> 'a DynamicEntity_scheme" where
  "putDynamic b e = e\<lparr>x := x b, y := y b, radius := radius b, visible := visible b,
     cooldownMs := cooldownMs b, impactMs := impactMs b, vx := vx b, vy := vy b\<rparr>"

definition getMovingPlanets :: "GameState \<Rightarrow> DynamicEntity list" where
  "getMovingPlanets s =
     [asDynamic (spark s), asDynamic (comet s), asDynamic (hazard s)] @ map asDynamic (extraPlanets s)"

definition planetPairs :: "nat \<Rightarrow> (nat \<times> nat) list" where
  "planetPairs n = concat (map (\<lambda>i. map (\<lambda>j. (i, j)) [i + 1 ..< n]) [0 ..< n])"

definition resolveAt :: "nat \<times> nat \<Rightarrow> DynamicEntity list \<Rightarrow> DynamicEntity list" where
  "resolveAt ij planets =
     (case ij of (i, j) \<Rightarrow>
        (case resolvePlanetPair (planets ! i) (planets ! j) of (a, b) \<Rightarrow> planets[i := a, j := b]))"

definition resolvePlanetCollisions :: "GameState \<Rightarrow> GameState" where
  "resolvePlanetCollisions s =
     (let planets = getMovingPlanets s;
          resolved = fold resolveAt (planetPairs (length planets)) planets in
      s\<lparr>spark := putDynamic (resolved ! 0) (spark s),
        comet := putDynamic (resolved ! 1) (comet s),
        hazard := putDynamic (resolved ! 2) (hazard s),
        extraPlanets := map (\<lambda>(k, planet). putDynamic (resolved ! (3 + k)) planet)
                          (enumerate 0 (extraPlanets s))\<rparr>)"

section \<open>Round setup\<close>

definition setupRound :: "GameState \<Rightarrow> string \<Rightarrow> rng \<Rightarrow> GameState" where
  "setupRound s message rnd =
     (let config = getDifficultyConfig (difficulty s);
          width = arenaWidth s;
          height = arenaHeight s;
          s1 = s\<lparr>input := zeroVector, lastDirection := zeroVector,
                 player := \<lparr> x = width / 2, y = height / 2, radius = PLAYER_RADIUS, visible = True,
                             cooldownMs = 0, impactMs = 0, vx = 0, vy = 0 \<rparr>,
                 spark := createCollectible Earth (earthPoints config) (secondThreshold config) 16
                            width height (planetSpawnSpeed config) rnd 0,
                 comet := createCollectible Mars (marsPoints config) (thirdThreshold config) 13
                            width height (planetSpawnSpeed config) rnd 4,
                 home := createHome (sunPoints config) (sunThreshold config) width height rnd 8,
                 hazard := createHazard width height (hazardSpawnSpeed config) rnd 10,
                 extraPlanets := createExtraPlanets width height (planetSpawnSpeed config) rnd 14\<rparr>;
          s2 = s1\<lparr>score := 0, combo := 1, comboTimerMs := 0, GameState.level := 1,
                  lives := baseLives config, shieldCharges := baseShieldCharges config,
                  invulnerabilityMs := 0, secondChanceUsed := False, windMode := False,
                  isPaused := False, isGameOver := False, planetChainMs := 0,
                  planetCatches := emptyCatches\<rparr>;
          s3 = s2\<lparr>currentMission := createMission (missionSeed s2 + 1) (difficulty s2)\<rparr>;
          s4 = s3\<lparr>missionSeed := missionSeed s3 + 1\<rparr>;
          s5 = s4\<lparr>learningFact := '''', learningFactTimerMs := 0, sessionElapsedMs := 0,
                  showBreakReminder := False, eventSignal := emptyEventSignal\<rparr> in
      setAnnouncement s5 message 1600)"

section \<open>Pickups and the hazard\<close>

text \<open>
  \<open>moveCollectible\<close> receives a reference to \<open>state.spark\<close> or \<open>state.comet\<close>; the slot
  says which, and every read and write of the collectible goes through the state.
\<close>

datatype Slot = SparkSlot | CometSlot

fun getC :: "Slot \<Rightarrow> GameState \<Rightarrow> Collectible" where
  "getC SparkSlot s = spark s"
| "getC CometSlot s = comet s"

fun putC :: "Slot \<Rightarrow> Collectible \<Rightarrow> GameState \<Rightarrow> GameState" where
  "putC SparkSlot c s = s\<lparr>spark := c\<rparr>"
| "putC CometSlot c s = s\<lparr>comet := c\<rparr>"

text \<open>The motion of a collectible, up to the cooldown test (the first lines of \<open>moveCollectible\<close>).\<close>

definition collectibleAdvance :: "GameState \<Rightarrow> Slot \<Rightarrow> number \<Rightarrow> GameState" where
  "collectibleAdvance s slot frameScale =
     (let config = getDifficultyConfig (difficulty s);
          s1 = putC slot ((getC slot s)\<lparr>visible := True\<rparr>) s;
          levelBoost = 0.9 + (GameState.level s1 - 1) * planetLevelBoostPerLevel config in
      putC slot (bounceInsideArena (clampVelocity (getC slot s1) (planetMaxSpeed config))
                   (arenaWidth s1) (arenaHeight s1) (frameScale * levelBoost) 1) s1)"

text \<open>The pickup branch of \<open>moveCollectible\<close>; the new position draws \<open>rnd k\<close> and \<open>rnd (k + 1)\<close>.\<close>

definition collectiblePickup :: "GameState \<Rightarrow> Slot \<Rightarrow> rng \<Rightarrow> nat \<Rightarrow> GameState" where
  "collectiblePickup s slot rnd k =
     (let pts = Collectible.points (getC slot s) * combo s;
          s1 = (if cid (getC slot s) = Earth
                then
                  let a = collectPoints s pts ''Dunya yakalandi!'';
                      b = a\<lparr>planetCatches := (planetCatches a)\<lparr>earth := earth (planetCatches a) + 1\<rparr>\<rparr> in
                  progressMission (setLearningFact b (Core Earth)) MissionEarth 1
                else
                  let a = collectPoints s pts ''Mars yakalandi!'';
                      b = a\<lparr>planetCatches := (planetCatches a)\<lparr>mars := mars (planetCatches a) + 1\<rparr>\<rparr> in
                  progressMission (setLearningFact b (Core Mars)) MissionMars 1);
          s2 = triggerPlanetImpact s1 (Core (cid (getC slot s1)));
          nextPosition = randomPosition (arenaWidth s2) (arenaHeight s2) (radius (getC slot s2)) rnd k in
      putC slot ((getC slot s2)\<lparr>x := x nextPosition, y := y nextPosition, cooldownMs := 500\<rparr>) s2)"

definition moveCollectible :: "GameState \<Rightarrow> Slot \<Rightarrow> number \<Rightarrow> number \<Rightarrow> rng \<Rightarrow> nat \<Rightarrow> GameState" where
  "moveCollectible s slot deltaMs frameScale rnd k =
     (let s1 = collectibleAdvance s slot frameScale in
      if cooldownMs (getC slot s1) > 0
      then putC slot ((getC slot s1)\<lparr>cooldownMs := max 0 (cooldownMs (getC slot s1) - deltaMs)\<rparr>) s1
      else
        let hitDistance = radius (player s1) + radius (getC slot s1) in
        if getDistance (player s1) (getC slot s1) \<le> hitDistance
        then collectiblePickup s1 slot rnd k
        else s1)"

definition setMovingVelocities :: "number \<Rightarrow> GameState \<Rightarrow> GameState" where
  "setMovingVelocities f s =
     s\<lparr>spark := (spark s)\<lparr>vx := vx (spark s) * f, vy := vy (spark s) * f\<rparr>,
       comet := (comet s)\<lparr>vx := vx (comet s) * f, vy := vy (comet s) * f\<rparr>,
       hazard := (hazard s)\<lparr>vx := vx (hazard s) * f, vy := vy (hazard s) * f\<rparr>,
       extraPlanets := map (\<lambda>body. body\<lparr>vx := vx body * f, vy := vy body * f\<rparr>) (extraPlanets s)\<rparr>"

definition applyExtraPlanetEffect :: "GameState \<Rightarrow> ExtraPlanetId \<Rightarrow> GameState" where
  "applyExtraPlanetEffect s planetId =
     (if planetId = Mercury then
        setAnnouncement (s\<lparr>comboTimerMs := max (comboTimerMs s) (COMBO_WINDOW_MS + 500)\<rparr>)
          ''Merkur: mini hiz ivmesi!'' 950
      else if planetId = Venus then
        setAnnouncement (s\<lparr>shieldCharges := min 5 (shieldCharges s + 1)\<rparr>) ''Venus: kalkan +1'' 1100
      else if planetId = Saturn then
        setAnnouncement (setMovingVelocities 0.84 s) ''Saturn halkalari: uzay akisina fren!'' 1200
      else if planetId = Uranus then
        setAnnouncement
          (s\<lparr>lives := min (baseLives (getDifficultyConfig (difficulty s)) + 2) (lives s + 1)\<rparr>)
          ''Uranus: ekstra can +1'' 1200
      else
        let s1 = s\<lparr>combo := min 9 (combo s + 1)\<rparr>;
            s2 = s1\<lparr>comboTimerMs := max (comboTimerMs s1) (COMBO_WINDOW_MS + 1000)\<rparr> in
        setAnnouncement (setMovingVelocities 1.06 s2) ''Neptune: combo uzatildi!'' 1150)"

fun upperPlanetId :: "ExtraPlanetId \<Rightarrow> string" where
  "upperPlanetId Mercury = ''MERCURY''"
| "upperPlanetId Venus = ''VENUS''"
| "upperPlanetId Saturn = ''SATURN''"
| "upperPlanetId Uranus = ''URANUS''"
| "upperPlanetId Neptune = ''NEPTUNE''"

fun bumpCatch :: "ExtraPlanetId \<Rightarrow> PlanetCatchStats \<Rightarrow> PlanetCatchStats" where
  "bumpCatch Mercury c = c\<lparr>mercury := mercury c + 1\<rparr>"
| "bumpCatch Venus c = c\<lparr>venus := venus c + 1\<rparr>"
| "bumpCatch Saturn c = c\<lparr>saturn := saturn c + 1\<rparr>"
| "bumpCatch Uranus c = c\<lparr>uranus := uranus c + 1\<rparr>"
| "bumpCatch Neptune c = c\<lparr>neptune := neptune c + 1\<rparr>"

definition putP :: "nat \<Rightarrow> ExtraPlanet \<Rightarrow> GameState \<Rightarrow> GameState" where
  "putP i planet s = s\<lparr>extraPlanets := (extraPlanets s)[i := planet]\<rparr>"

text \<open>The pickup of the extra planet at index \<open>i\<close> (the end of the loop body of \<open>moveExtraPlanets\<close>).\<close>

definition extraPlanetPickup :: "GameState \<Rightarrow> nat \<Rightarrow> rng \<Rightarrow> nat \<Rightarrow> GameState" where
  "extraPlanetPickup s i rnd k =
     (let planet = extraPlanets s ! i;
          s1 = collectPoints s (ExtraPlanet.points planet * combo s)
                 (upperPlanetId (pid planet) @ '' yakalandi!'');
          s2 = setLearningFact s1 (Extra (pid planet));
          s3 = s2\<lparr>planetCatches := bumpCatch (pid planet) (planetCatches s2)\<rparr>;
          s4 = applyExtraPlanetEffect s3 (pid planet);
          s5 = triggerPlanetImpact s4 (Extra (pid planet));
          nextPosition = randomPosition (arenaWidth s5) (arenaHeight s5) (radius (extraPlanets s5 ! i)) rnd k in
      putP i ((extraPlanets s5 ! i)\<lparr>x := x nextPosition, y := y nextPosition, cooldownMs := 650\<rparr>) s5)"

text \<open>One iteration of the loop of \<open>moveExtraPlanets\<close>, for the planet at index \<open>i\<close>.\<close>

definition moveExtraPlanet :: "number \<Rightarrow> number \<Rightarrow> rng \<Rightarrow> nat \<Rightarrow> nat \<Rightarrow> GameState \<Rightarrow> GameState" where
  "moveExtraPlanet deltaMs frameScale rnd k i s =
     (let config = getDifficultyConfig (difficulty s);
          p0 = (extraPlanets s ! i)\<lparr>visible := True\<rparr>;
          levelBoost = 0.88 + (GameState.level s - 1) * planetLevelBoostPerLevel config;
          p1 = bounceInsideArena (clampVelocity p0 (planetMaxSpeed config * speedFactor p0))
                 (arenaWidth s) (arenaHeight s) (frameScale * levelBoost) 1;
          s1 = putP i p1 s in
      if cooldownMs p1 > 0 then putP i (p1\<lparr>cooldownMs := max 0 (cooldownMs p1 - deltaMs)\<rparr>) s1
      else
        let hitDistance = radius (player s1) + radius p1 in
        if getDistance (player s1) p1 > hitDistance then s1
        else extraPlanetPickup s1 i rnd (k + 2 * i))"

definition moveExtraPlanets :: "GameState \<Rightarrow> number \<Rightarrow> number \<Rightarrow> rng \<Rightarrow> nat \<Rightarrow> GameState" where
  "moveExtraPlanets s deltaMs frameScale rnd k =
     fold (moveExtraPlanet deltaMs frameScale rnd k) [0 ..< length (extraPlanets s)] s"

definition homePickup :: "GameState \<Rightarrow> rng \<Rightarrow> nat \<Rightarrow> GameState" where
  "homePickup s rnd k =
     (let pts = HomePortal.points (home s) * combo s;
          s1 = collectPoints s pts ''Gunes bonusu!'';
          s2 = s1\<lparr>planetCatches := (planetCatches s1)\<lparr>sun := sun (planetCatches s1) + 1\<rparr>\<rparr>;
          s3 = progressMission (setLearningFact s2 Sun) MissionSun 1;
          s4 = triggerPlanetImpact s3 Sun;
          nextPosition = randomPosition (arenaWidth s4) (arenaHeight s4) (radius (home s4)) rnd k in
      s4\<lparr>home := (home s4)\<lparr>x := x nextPosition, y := y nextPosition, cooldownMs := 1000\<rparr>\<rparr>)"

definition moveHome :: "GameState \<Rightarrow> number \<Rightarrow> rng \<Rightarrow> nat \<Rightarrow> GameState" where
  "moveHome s deltaMs rnd k =
     (let s1 = s\<lparr>home := (home s)\<lparr>visible := True\<rparr>\<rparr> in
      if cooldownMs (home s1) > 0
      then s1\<lparr>home := (home s1)\<lparr>cooldownMs := max 0 (cooldownMs (home s1) - deltaMs)\<rparr>\<rparr>
      else
        let hitDistance = radius (player s1) + radius (home s1) in
        if getDistance (player s1) (home s1) \<le> hitDistance then homePickup s1 rnd k else s1)"

text \<open>The motion of the hazard, up to the cooldown test (the first lines of \<open>moveHazard\<close>).\<close>

definition hazardAdvance :: "GameState \<Rightarrow> number \<Rightarrow> GameState" where
  "hazardAdvance s frameScale =
     (let config = getDifficultyConfig (difficulty s);
          s1 = s\<lparr>hazard := (hazard s)\<lparr>active := True, visible := True\<rparr>\<rparr>;
          levelBoost = (0.9 + (GameState.level s1 - 1) * hazardLevelBoostPerLevel config)
                         * hazardSpeedMultiplier config in
      s1\<lparr>hazard := bounceInsideArena (clampVelocity (hazard s1) (hazardMaxSpeed config))
                      (arenaWidth s1) (arenaHeight s1) (frameScale * levelBoost) 1\<rparr>)"

text \<open>
  What \<open>moveHazard\<close> does once the player touches the hazard: the catch counter, the
  impact, and then the invulnerable, shielded and hit outcomes in this order.
\<close>

definition hazardCollision :: "GameState \<Rightarrow> rng \<Rightarrow> nat \<Rightarrow> GameState" where
  "hazardCollision s rnd k =
     (let s1 = s\<lparr>planetCatches := (planetCatches s)\<lparr>jupiter := jupiter (planetCatches s) + 1\<rparr>\<rparr>;
          s2 = triggerPlanetImpact s1 Jupiter in
      if invulnerabilityMs s2 > 0 then s2\<lparr>hazard := (hazard s2)\<lparr>cooldownMs := 500\<rparr>\<rparr>
      else if shieldCharges s2 > 0 then
        let s3 = s2\<lparr>shieldCharges := shieldCharges s2 - 1,
                    invulnerabilityMs := SHIELD_INVULNERABILITY_MS\<rparr>;
            s4 = setLearningFact (setAnnouncement (incrementEvent s3 EvShield) ''Kalkan seni korudu!'' 1100)
                   Jupiter;
            safePosition = randomPosition (arenaWidth s4) (arenaHeight s4) (radius (hazard s4)) rnd k in
        s4\<lparr>hazard := (hazard s4)\<lparr>x := x safePosition, y := y safePosition, cooldownMs := 900\<rparr>\<rparr>
      else
        let s3 = s2\<lparr>lives := lives s2 - 1, combo := 1, comboTimerMs := 0,
                    invulnerabilityMs := HIT_INVULNERABILITY_MS\<rparr>;
            s4 = setLearningFact
                   (setAnnouncement (incrementEvent s3 EvHit) ''Dikkat! Jupiter firtinasina carptin.'' 1200)
                   Jupiter;
            position = randomPosition (arenaWidth s4) (arenaHeight s4) (radius (hazard s4)) rnd k;
            s5 = s4\<lparr>hazard := (hazard s4)\<lparr>x := x position, y := y position, cooldownMs := 1200\<rparr>\<rparr> in
        if lives s5 \<le> 0 then
          (if \<not> secondChanceUsed s5 then
             let s6 = s5\<lparr>secondChanceUsed := True, lives := 1,
                         shieldCharges := max (shieldCharges s5) 1, invulnerabilityMs := 2600\<rparr> in
             setAnnouncement (incrementEvent s6 EvShield) ''Son sans devrede! Devam et!'' 1800
           else
             let s6 = s5\<lparr>isGameOver := True, isPaused := True, input := zeroVector,
                         player := (player s5)\<lparr>vx := 0, vy := 0\<rparr>\<rparr> in
             setAnnouncement s6 ''Gorev bitti! Yeniden basla.'' 2500)
        else s5)"

definition moveHazard :: "GameState \<Rightarrow> number \<Rightarrow> number \<Rightarrow> rng \<Rightarrow> nat \<Rightarrow> GameState" where
  "moveHazard s deltaMs frameScale rnd k =
     (let s1 = hazardAdvance s frameScale in
      if cooldownMs (hazard s1) > 0
      then s1\<lparr>hazard := (hazard s1)\<lparr>cooldownMs := max 0 (cooldownMs (hazard s1) - deltaMs)\<rparr>\<rparr>
      else
        let hitDistance = radius (player s1) + radius (hazard s1) in
        if getDistance (player s1) (hazard s1) \<le> hitDistance then hazardCollision s1 rnd k else s1)"

section \<open>The tick\<close>

text \<open>The steering and motion of the player: the part of \<open>tick\<close> before the bodies move.\<close>

definition tickPlayer :: "GameState \<Rightarrow> number \<Rightarrow> GameState" where
  "tickPlayer s frameScale =
     (let config = getDifficultyConfig (difficulty s);
          inputMagnitude = hypot (x (input s)) (y (input s));
          normalizedX = (if inputMagnitude > 0 then x (input s) / inputMagnitude else 0);
          normalizedY = (if inputMagnitude > 0 then y (input s) / inputMagnitude else 0);
          s1 = (if inputMagnitude > 0
                then s\<lparr>lastDirection := (lastDirection s)\<lparr>x := normalizedX, y := normalizedY\<rparr>\<rparr>
                else s);
          targetVx = normalizedX * cruiseSpeed config;
          targetVy = normalizedY * cruiseSpeed config;
          steeringBlend = min 1 (steeringResponse config * frameScale);
          s2 = s1\<lparr>player := (player s1)\<lparr>vx := vx (player s1) + (targetVx - vx (player s1)) * steeringBlend,
                                           vy := vy (player s1) + (targetVy - vy (player s1)) * steeringBlend\<rparr>\<rparr>;
          s3 = (if inputMagnitude = 0 then
                  let damping = idleDamping config powr frameScale;
                      p1 = (player s2)\<lparr>vx := vx (player s2) * damping, vy := vy (player s2) * damping\<rparr>;
                      driftSpeed = hypot (vx p1) (vy p1);
                      hasLastDirection = (\<bar>x (lastDirection s2)\<bar> > 0 \<or> \<bar>y (lastDirection s2)\<bar> > 0) in
                  if hasLastDirection \<and> driftSpeed > 0 \<and> driftSpeed < minDriftSpeed config
                  then s2\<lparr>player := p1\<lparr>vx := x (lastDirection s2) * minDriftSpeed config,
                                         vy := y (lastDirection s2) * minDriftSpeed config\<rparr>\<rparr>
                  else s2\<lparr>player := p1\<rparr>
                else s2);
          currentSpeed = hypot (vx (player s3)) (vy (player s3));
          s4 = (if currentSpeed > maxSpeed config \<and> currentSpeed > 0
                then s3\<lparr>player := (player s3)\<lparr>vx := vx (player s3) * (maxSpeed config / currentSpeed),
                                                 vy := vy (player s3) * (maxSpeed config / currentSpeed)\<rparr>\<rparr>
                else s3);
          s5 = (if \<bar>vx (player s4)\<bar> < 0.05 then s4\<lparr>player := (player s4)\<lparr>vx := 0\<rparr>\<rparr> else s4);
          s6 = (if \<bar>vy (player s5)\<bar> < 0.05 then s5\<lparr>player := (player s5)\<lparr>vy := 0\<rparr>\<rparr> else s5);
          s7 = s6\<lparr>player := bounceInsideArena (player s6) (arenaWidth s6) (arenaHeight s6) frameScale
                              (playerBounceDamping config)\<rparr>;
          s8 = (if \<not> isFinite (x (player s7)) \<or> \<not> isFinite (y (player s7)) \<or>
                   \<not> isFinite (vx (player s7)) \<or> \<not> isFinite (vy (player s7))
                then s7\<lparr>player := (player s7)\<lparr>x := arenaWidth s7 / 2, y := arenaHeight s7 / 2,
                                                 vx := 0, vy := 0\<rparr>,
                        input := zeroVector, lastDirection := zeroVector\<rparr>
                else s7);
          speed = hypot (vx (player s8)) (vy (player s8)) in
      s8\<lparr>windMode := (speed \<ge> windThreshold config)\<rparr>)"

text \<open>
  The bodies before the hazard: gravity, the two collectibles, the extra planets and the
  home portal. The draws of a tick have fixed places: 0 and 1 for the spark, 2 and 3 for
  the comet, two for each extra planet from 4 on, then two for the home portal and two
  for the hazard.
\<close>

definition homeDraw :: "GameState \<Rightarrow> nat" where
  "homeDraw s = 4 + 2 * length (extraPlanets s)"

definition tickPickups :: "GameState \<Rightarrow> number \<Rightarrow> number \<Rightarrow> rng \<Rightarrow> GameState" where
  "tickPickups s deltaMs frameScale rnd =
     (let s1 = tickPlayer s frameScale;
          s2 = applySolarInfluence s1 frameScale;
          s3 = moveCollectible s2 SparkSlot deltaMs frameScale rnd 0;
          s4 = moveCollectible s3 CometSlot deltaMs frameScale rnd 2;
          s5 = moveExtraPlanets s4 deltaMs frameScale rnd 4 in
      moveHome s5 deltaMs rnd (homeDraw s))"

text \<open>
  The end of \<open>tick\<close>, statement by statement: the impact and invulnerability timers,
  the mission clock, the combo and the texts, the break reminder, and last the unlocks.
\<close>

definition tickImpactTimers :: "GameState \<Rightarrow> number \<Rightarrow> GameState" where
  "tickImpactTimers s deltaMs =
     (let s1 = s\<lparr>spark := (spark s)\<lparr>impactMs := max 0 (impactMs (spark s) - deltaMs)\<rparr>,
                 comet := (comet s)\<lparr>impactMs := max 0 (impactMs (comet s) - deltaMs)\<rparr>,
                 home := (home s)\<lparr>impactMs := max 0 (impactMs (home s) - deltaMs)\<rparr>,
                 hazard := (hazard s)\<lparr>impactMs := max 0 (impactMs (hazard s) - deltaMs)\<rparr>,
                 extraPlanets := map (\<lambda>planet. planet\<lparr>impactMs := max 0 (impactMs planet - deltaMs)\<rparr>)
                                   (extraPlanets s),
                 player := (player s)\<lparr>impactMs := max 0 (impactMs (player s) - deltaMs)\<rparr>,
                 planetChainMs := max 0 (planetChainMs s - deltaMs)\<rparr> in
      if invulnerabilityMs s1 > 0
      then s1\<lparr>invulnerabilityMs := max 0 (invulnerabilityMs s1 - deltaMs)\<rparr> else s1)"

definition tickMission :: "GameState \<Rightarrow> number \<Rightarrow> GameState" where
  "tickMission s deltaMs =
     (let s3 = (if kind (currentMission s) = Survive
                then progressMission s Survive (deltaMs / 1000) else s);
          s4 = s3\<lparr>currentMission :=
                    (currentMission s3)\<lparr>timeLeftMs := max 0 (timeLeftMs (currentMission s3) - deltaMs)\<rparr>\<rparr> in
      if timeLeftMs (currentMission s4) = 0 \<and>
         progress (currentMission s4) < target (currentMission s4)
      then failMission s4 else s4)"

definition tickTexts :: "GameState \<Rightarrow> number \<Rightarrow> GameState" where
  "tickTexts s deltaMs =
     (let s6 = (if comboTimerMs s > 0 then
                  let a = s\<lparr>comboTimerMs := max 0 (comboTimerMs s - deltaMs)\<rparr> in
                  if comboTimerMs a = 0 then a\<lparr>combo := 1\<rparr> else a
                else s);
          s7 = (if announcementTimerMs s6 > 0 then
                  let a = s6\<lparr>announcementTimerMs := max 0 (announcementTimerMs s6 - deltaMs)\<rparr> in
                  if announcementTimerMs a = 0 \<and> \<not> isGameOver a then a\<lparr>announcement := ''''\<rparr> else a
                else s6) in
      if learningFactTimerMs s7 > 0 then
        let a = s7\<lparr>learningFactTimerMs := max 0 (learningFactTimerMs s7 - deltaMs)\<rparr> in
        if learningFactTimerMs a = 0 then a\<lparr>learningFact := ''''\<rparr> else a
      else s7)"

definition tickSessionReminder :: "GameState \<Rightarrow> number \<Rightarrow> GameState" where
  "tickSessionReminder s deltaMs =
     (if sessionReminderEnabled (settings s) then
        let a = s\<lparr>sessionElapsedMs := sessionElapsedMs s + deltaMs\<rparr> in
        if sessionElapsedMs a \<ge> sessionReminderMs (settings a)
        then setAnnouncement (a\<lparr>showBreakReminder := True, isPaused := True\<rparr>)
               ''Mola zamani! Su icip gozlerini dinlendirelim.'' 1800
        else a
      else s)"

definition tickTimers :: "GameState \<Rightarrow> number \<Rightarrow> GameState" where
  "tickTimers s deltaMs =
     checkUnlocksAndBadges
       (tickSessionReminder (tickTexts (tickMission (tickImpactTimers s deltaMs) deltaMs) deltaMs) deltaMs)"

definition clampDelta :: "number \<Rightarrow> number" where
  "clampDelta payload = min 48 (max 8 payload)"

definition tick :: "GameState \<Rightarrow> number \<Rightarrow> rng \<Rightarrow> GameState" where
  "tick s payload rnd =
     (if isPaused s \<or> isGameOver s \<or> showBreakReminder s then s
      else
        let deltaMs = clampDelta payload;
            frameScale = deltaMs / 16.6667;
            s1 = tickPickups s deltaMs frameScale rnd;
            s2 = moveHazard s1 deltaMs frameScale rnd (homeDraw s + 2);
            s3 = resolvePlanetCollisions s2 in
        tickTimers s3 deltaMs)"

section \<open>The other reducers\<close>

definition setArenaSize :: "GameState \<Rightarrow> number \<Rightarrow> number \<Rightarrow> GameState" where
  "setArenaSize s payloadWidth payloadHeight =
     (let width = js_floor payloadWidth;
          height = js_floor payloadHeight in
      if width < 320 \<or> height < 220 then s
      else
        s\<lparr>arenaWidth := width, arenaHeight := height,
          player := (player s)\<lparr>
            x := clampPosition (x (player s)) (radius (player s)) (width - radius (player s)),
            y := clampPosition (y (player s)) (radius (player s)) (height - radius (player s))\<rparr>,
          spark := (spark s)\<lparr>
            x := clampPosition (x (spark s)) (radius (spark s)) (width - radius (spark s)),
            y := clampPosition (y (spark s)) (radius (spark s)) (height - radius (spark s))\<rparr>,
          comet := (comet s)\<lparr>
            x := clampPosition (x (comet s)) (radius (comet s)) (width - radius (comet s)),
            y := clampPosition (y (comet s)) (radius (comet s)) (height - radius (comet s))\<rparr>,
          home := (home s)\<lparr>
            x := clampPosition (x (home s)) (radius (home s)) (width - radius (home s)),
            y := clampPosition (y (home s)) (radius (home s)) (height - radius (home s))\<rparr>,
          hazard := (hazard s)\<lparr>
            x := clampPosition (x (hazard s)) (radius (hazard s)) (width - radius (hazard s)),
            y := clampPosition (y (hazard s)) (radius (hazard s)) (height - radius (hazard s))\<rparr>,
          extraPlanets := map (\<lambda>planet. planet\<lparr>
            x := clampPosition (x planet) (radius planet) (width - radius planet),
            y := clampPosition (y planet) (radius planet) (height - radius planet)\<rparr>) (extraPlanets s)\<rparr>)"

definition setInput :: "GameState \<Rightarrow> Vector \<Rightarrow> GameState" where
  "setInput s payload = s\<lparr>input := payload\<rparr>"

fun upperDifficulty :: "Difficulty \<Rightarrow> string" where
  "upperDifficulty Easy = ''EASY''"
| "upperDifficulty Normal = ''NORMAL''"
| "upperDifficulty Hard = ''HARD''"

definition setDifficulty :: "GameState \<Rightarrow> Difficulty \<Rightarrow> rng \<Rightarrow> GameState" where
  "setDifficulty s payload rnd =
     (if difficulty s = payload then s
      else setupRound (s\<lparr>difficulty := payload\<rparr>) (''Zorluk ayarlandi: '' @ upperDifficulty payload) rnd)"

definition setControlSide :: "GameState \<Rightarrow> ControlSide \<Rightarrow> GameState" where
  "setControlSide s payload = s\<lparr>controlSide := payload\<rparr>"

definition setSoundVolume :: "GameState \<Rightarrow> number \<Rightarrow> GameState" where
  "setSoundVolume s payload =
     s\<lparr>settings := (settings s)\<lparr>soundVolume := max 0 (min MAX_SOUND_VOLUME payload)\<rparr>\<rparr>"

definition setVibrationEnabled :: "GameState \<Rightarrow> bool \<Rightarrow> GameState" where
  "setVibrationEnabled s payload = s\<lparr>settings := (settings s)\<lparr>vibrationEnabled := payload\<rparr>\<rparr>"

definition setSessionReminderEnabled :: "GameState \<Rightarrow> bool \<Rightarrow> GameState" where
  "setSessionReminderEnabled s payload =
     (let s1 = s\<lparr>settings := (settings s)\<lparr>sessionReminderEnabled := payload\<rparr>\<rparr> in
      if \<not> payload then s1\<lparr>showBreakReminder := False\<rparr> else s1)"

definition setSessionReminderMinutes :: "GameState \<Rightarrow> number \<Rightarrow> GameState" where
  "setSessionReminderMinutes s payload =
     (let safeMinutes = max 10 (min 45 (js_round payload)) in
      s\<lparr>settings := (settings s)\<lparr>sessionReminderMs := safeMinutes * 60 * 1000\<rparr>\<rparr>)"

definition dismissBreakReminder :: "GameState \<Rightarrow> GameState" where
  "dismissBreakReminder s =
     (let s1 = s\<lparr>showBreakReminder := False, sessionElapsedMs := 0\<rparr> in
      if \<not> isGameOver s1
      then setAnnouncement (s1\<lparr>isPaused := False\<rparr>) ''Mola tamam! Devam ediyoruz.'' 1200
      else s1)"

definition selectRocketSkin :: "GameState \<Rightarrow> RocketSkin \<Rightarrow> GameState" where
  "selectRocketSkin s payload =
     (if payload \<notin> set (unlockedSkins s) then s else s\<lparr>selectedSkin := payload\<rparr>)"

definition nudgePlayer :: "GameState \<Rightarrow> Vector \<Rightarrow> GameState" where
  "nudgePlayer s payload =
     (if isGameOver s \<or> isPaused s then s
      else
        let config = getDifficultyConfig (difficulty s);
            s1 = s\<lparr>player := (player s)\<lparr>vx := vx (player s) + x payload * 1.1,
                                          vy := vy (player s) + y payload * 1.1\<rparr>\<rparr>;
            tapSpeed = hypot (vx (player s1)) (vy (player s1)) in
        if tapSpeed > maxSpeed config \<and> tapSpeed > 0
        then s1\<lparr>player := (player s1)\<lparr>vx := vx (player s1) * (maxSpeed config / tapSpeed),
                                        vy := vy (player s1) * (maxSpeed config / tapSpeed)\<rparr>\<rparr>
        else s1)"

definition stopPlayer :: "GameState \<Rightarrow> GameState" where
  "stopPlayer s = s\<lparr>player := (player s)\<lparr>vx := 0, vy := 0\<rparr>, lastDirection := zeroVector\<rparr>"

definition resetPlayerPosition :: "GameState \<Rightarrow> GameState" where
  "resetPlayerPosition s =
     setAnnouncement
       (s\<lparr>player := (player s)\<lparr>x := arenaWidth s / 2, y := arenaHeight s / 2, vx := 0, vy := 0\<rparr>,
          input := zeroVector, lastDirection := zeroVector, combo := 1, comboTimerMs := 0\<rparr>)
       ''Roket merkeze alindi.'' 1000"

definition togglePause :: "GameState \<Rightarrow> GameState" where
  "togglePause s =
     (if isGameOver s \<or> showBreakReminder s then s
      else
        let s1 = s\<lparr>isPaused := \<not> isPaused s\<rparr> in
        setAnnouncement s1 (if isPaused s1 then ''Duraklatildi'' else ''Devam!'') 700)"

definition restartGame :: "GameState \<Rightarrow> rng \<Rightarrow> GameState" where
  "restartGame s rnd = setupRound s ''Yeni oyun basladi!'' rnd"

section \<open>Commands and reachable states\<close>

datatype Command =
    SetArenaSize number number
  | SetInput Vector
  | SetDifficulty Difficulty rng
  | SetControlSide ControlSide
  | SetSoundVolume number
  | SetVibrationEnabled bool
  | SetSessionReminderEnabled bool
  | SetSessionReminderMinutes number
  | DismissBreakReminder
  | SelectRocketSkin RocketSkin
  | NudgePlayer Vector
  | StopPlayer
  | ResetPlayerPosition
  | TogglePause
  | RestartGame rng
  | Tick number rng

fun reduce :: "GameState \<Rightarrow> Command \<Rightarrow> GameState" where
  "reduce s (SetArenaSize w h) = setArenaSize s w h"
| "reduce s (SetInput v) = setInput s v"
| "reduce s (SetDifficulty d rnd) = setDifficulty s d rnd"
| "reduce s (SetControlSide c) = setControlSide s c"
| "reduce s (SetSoundVolume v) = setSoundVolume s v"
| "reduce s (SetVibrationEnabled b) = setVibrationEnabled s b"
| "reduce s (SetSessionReminderEnabled b) = setSessionReminderEnabled s b"
| "reduce s (SetSessionReminderMinutes m) = setSessionReminderMinutes s m"
| "reduce s DismissBreakReminder = dismissBreakReminder s"
| "reduce s (SelectRocketSkin k) = selectRocketSkin s k"
| "reduce s (NudgePlayer v) = nudgePlayer s v"
| "reduce s StopPlayer = stopPlayer s"
| "reduce s ResetPlayerPosition = resetPlayerPosition s"
| "reduce s TogglePause = togglePause s"
| "reduce s (RestartGame rnd) = restartGame s rnd"
| "reduce s (Tick deltaMs rnd) = tick s deltaMs rnd"

text \<open>The state after a list of commands, the first command first.\<close>

definition run :: "GameState \<Rightarrow> Command list \<Rightarrow> GameState" where
  "run s cmds = foldl reduce s cmds"

section \<open>Relations between the states of a tick\<close>

definition hsStep :: "GameState \<Rightarrow> GameState \<Rightarrow> bool" where
  "hsStep s t \<longleftrightarrow>
     (score t = score s \<and> (highScore t = highScore s \<or> highScore t = max (highScore s) (score s))) \<or>
     (score s < score t \<and> highScore t = max (highScore s) (score t))"

definition good :: "GameState \<Rightarrow> bool" where
  "good s \<longleftrightarrow>
     1 \<le> combo s \<and> combo s \<le> 9 \<and>
     lives s \<in> \<int> \<and> 0 \<le> lives s \<and> (isGameOver s \<or> 1 \<le> lives s) \<and>
     shieldCharges s \<in> \<int> \<and> 0 \<le> shieldCharges s \<and>
     0 \<le> progress (currentMission s) \<and> progress (currentMission s) \<le> target (currentMission s) \<and>
     0 \<le> rewardPoints (currentMission s)"

definition solarBadge :: string where
  "solarBadge = ''solar-explorer''"

definition frameRel :: "GameState \<Rightarrow> GameState \<Rightarrow> bool" where
  "frameRel s t \<longleftrightarrow>
     difficulty t = difficulty s \<and>
     length (extraPlanets t) = length (extraPlanets s) \<and>
     isGameOver t = isGameOver s \<and>
     secondChanceUsed t = secondChanceUsed s \<and>
     (isPaused t \<or> \<not> isPaused s) \<and>
     hit (eventSignal t) = hit (eventSignal s) \<and>
     shield (eventSignal t) = shield (eventSignal s) \<and>
     jupiter (planetCatches t) = jupiter (planetCatches s) \<and>
     cooldownMs (hazard t) = cooldownMs (hazard s)"

definition monoRel :: "GameState \<Rightarrow> GameState \<Rightarrow> bool" where
  "monoRel s t \<longleftrightarrow>
     collect (eventSignal s) \<le> collect (eventSignal t) \<and>
     mission (eventSignal s) \<le> mission (eventSignal t) \<and>
     badge (eventSignal s) \<le> badge (eventSignal t) \<and>
     EventSignal.level (eventSignal s) \<le> EventSignal.level (eventSignal t) \<and>
     unlock (eventSignal s) \<le> unlock (eventSignal t)"

definition scoreRel :: "GameState \<Rightarrow> GameState \<Rightarrow> bool" where
  "scoreRel s t \<longleftrightarrow> score s \<le> score t \<and> hsStep s t \<and> good t"

definition solarRel :: "GameState \<Rightarrow> GameState \<Rightarrow> bool" where
  "solarRel s t \<longleftrightarrow>
     (solarBadge \<in> set (badges t) \<longrightarrow> solarBadge \<in> set (badges s) \<or> 0 < jupiter (planetCatches s))"

definition tickRel :: "GameState \<Rightarrow> GameState \<Rightarrow> bool" where
  "tickRel s t \<longleftrightarrow>
     frameRel s t \<and> monoRel s t \<and> solarRel s t \<and> (good s \<longrightarrow> scoreRel s t)"

definition weakRel :: "GameState \<Rightarrow> GameState \<Rightarrow> bool" where
  "weakRel s t \<longleftrightarrow>
     difficulty t = difficulty s \<and>
     length (extraPlanets t) = length (extraPlanets s) \<and>
     collect (eventSignal s) \<le> collect (eventSignal t) \<and>
     hit (eventSignal s) \<le> hit (eventSignal t) \<and>
     mission (eventSignal s) \<le> mission (eventSignal t) \<and>
     badge (eventSignal s) \<le> badge (eventSignal t) \<and>
     EventSignal.level (eventSignal s) \<le> EventSignal.level (eventSignal t) \<and>
     unlock (eventSignal s) \<le> unlock (eventSignal t) \<and>
     shield (eventSignal s) \<le> shield (eventSignal t) \<and>
     score s \<le> score t \<and> hsStep s t \<and>
     jupiter (planetCatches s) \<le> jupiter (planetCatches t) \<and>
     (solarBadge \<in> set (badges t) \<longrightarrow> solarBadge \<in> set (badges s) \<or> 0 < jupiter (planetCatches t)) \<and>
     good t"

section \<open>The hazard's collision test and some concrete states\<close>

text \<open>
  The state of a tick when \<open>moveHazard\<close> tests the cooldown and the distance: after the
  player, the gravity, the collectibles, the extra planets and the home portal, and after
  the hazard's own motion.
\<close>

definition atHazard :: "GameState \<Rightarrow> number \<Rightarrow> rng \<Rightarrow> GameState" where
  "atHazard s payload rnd =
     hazardAdvance (tickPickups s (clampDelta payload) (clampDelta payload / 16.6667) rnd)
       (clampDelta payload / 16.6667)"

text \<open>The tick runs, the hazard is off cooldown at its test and the player touches it.\<close>

definition hazardTouched :: "GameState \<Rightarrow> number \<Rightarrow> rng \<Rightarrow> bool" where
  "hazardTouched s payload rnd \<longleftrightarrow>
     \<not> isPaused s \<and> \<not> isGameOver s \<and> \<not> showBreakReminder s \<and>
     cooldownMs (hazard (atHazard s payload rnd)) \<le> 0 \<and>
     getDistance (player (atHazard s payload rnd)) (hazard (atHazard s payload rnd))
       \<le> radius (player (atHazard s payload rnd)) + radius (hazard (atHazard s payload rnd))"

text \<open>Draws that are all one half put every body at the centre of the arena, at rest.\<close>

definition rndHalf :: rng where
  "rndHalf k = 1 / 2"

definition demoState :: GameState where
  "demoState = createInitialState None rndHalf"

section \<open>What the phases of a tick preserve\<close>

lemma hsStep_refl: "hsStep s s"
  by (simp add: hsStep_def)

lemma hsStep_trans: "hsStep s t \<Longrightarrow> hsStep t u \<Longrightarrow> hsStep s u"
  unfolding hsStep_def by (auto simp: max_def split: if_splits)

lemma frameRel_trans: "frameRel s t \<Longrightarrow> frameRel t u \<Longrightarrow> frameRel s u"
  unfolding frameRel_def by auto

lemma monoRel_trans: "monoRel s t \<Longrightarrow> monoRel t u \<Longrightarrow> monoRel s u"
  unfolding monoRel_def by simp

lemma solarRel_trans: "frameRel s t \<Longrightarrow> solarRel s t \<Longrightarrow> solarRel t u \<Longrightarrow> solarRel s u"
  unfolding solarRel_def frameRel_def by auto

lemma tickRel_refl: "tickRel s s"
  by (simp add: tickRel_def hsStep_refl frameRel_def monoRel_def solarRel_def scoreRel_def)

lemma scoreRel_trans: "scoreRel s t \<Longrightarrow> scoreRel t u \<Longrightarrow> scoreRel s u"
  unfolding scoreRel_def using hsStep_trans by auto

lemma tickRel_trans: "tickRel s t \<Longrightarrow> tickRel t u \<Longrightarrow> tickRel s u"
  unfolding tickRel_def
  using frameRel_trans monoRel_trans solarRel_trans scoreRel_trans scoreRel_def by blast

lemma tickRel_good: "tickRel s t \<Longrightarrow> good s \<Longrightarrow> good t"
  by (simp add: tickRel_def scoreRel_def)

lemmas tickRel_comp = tickRel_trans

lemmas rel_defs = tickRel_def frameRel_def monoRel_def solarRel_def scoreRel_def hsStep_def good_def


lemma config_baseLives: "3 \<le> baseLives (getDifficultyConfig d)" "baseLives (getDifficultyConfig d) \<in> \<int>"
  by (cases d; simp add: getDifficultyConfig_def easyConfig_def normalConfig_def hardConfig_def)+

lemma config_baseShield: "1 \<le> baseShieldCharges (getDifficultyConfig d)" "baseShieldCharges (getDifficultyConfig d) \<in> \<int>"
  by (cases d; simp add: getDifficultyConfig_def easyConfig_def normalConfig_def hardConfig_def)+

lemma config_step: "0 < levelScoreStep (getDifficultyConfig d)"
  by (cases d; simp add: getDifficultyConfig_def easyConfig_def normalConfig_def hardConfig_def)

lemma Ints_min: "(a::real) \<in> \<int> \<Longrightarrow> b \<in> \<int> \<Longrightarrow> min a b \<in> \<int>"
  by (simp add: min_def)

lemma Ints_max: "(a::real) \<in> \<int> \<Longrightarrow> b \<in> \<int> \<Longrightarrow> max a b \<in> \<int>"
  by (simp add: max_def)

lemma Ints_pos_ge1: "(a::real) \<in> \<int> \<Longrightarrow> 0 < a \<Longrightarrow> 1 \<le> a"
  by (auto elim!: Ints_cases)

lemma tickRel_Let: "tickRel z a \<Longrightarrow> (\<And>v. tickRel z v \<Longrightarrow> tickRel z (f v)) \<Longrightarrow> tickRel z (Let a f)"
  by simp

lemma tickRel_ifI:
  "tickRel z v \<Longrightarrow> (c \<Longrightarrow> tickRel v a) \<Longrightarrow> tickRel z (if c then a else v)"
  using tickRel_comp by auto

lemma setAnnouncement_rel: "tickRel z s \<Longrightarrow> tickRel z (setAnnouncement s m t)"
  by (erule tickRel_comp) (simp add: rel_defs setAnnouncement_def)

lemma setLearningFact_rel: "tickRel z s \<Longrightarrow> tickRel z (setLearningFact s k)"
  by (erule tickRel_comp) (simp add: rel_defs setLearningFact_def)

lemma unlockSkin_rel: "tickRel z s \<Longrightarrow> tickRel z (unlockSkin s k m)"
  by (erule tickRel_comp) (simp add: rel_defs unlockSkin_def setAnnouncement_def incrementEvent_def)

lemma grantBadge_other_rel: "tickRel z s \<Longrightarrow> b \<noteq> solarBadge \<Longrightarrow> tickRel z (grantBadge s b m)"
  by (erule tickRel_comp) (simp add: rel_defs grantBadge_def setAnnouncement_def incrementEvent_def)

lemma grantBadge_solar_rel:
  "tickRel z s \<Longrightarrow> 0 < jupiter (planetCatches s) \<Longrightarrow> tickRel z (grantBadge s b m)"
  by (erule tickRel_comp) (simp add: rel_defs grantBadge_def setAnnouncement_def incrementEvent_def)

lemma checkUnlocksAndBadges_rel: "tickRel z s \<Longrightarrow> tickRel z (checkUnlocksAndBadges s)"
  unfolding checkUnlocksAndBadges_def
  apply (rule tickRel_Let, erule tickRel_ifI, simp add: unlockSkin_rel tickRel_refl)
  apply (rule tickRel_Let, erule tickRel_ifI, simp add: unlockSkin_rel tickRel_refl)
  apply (rule tickRel_Let, erule tickRel_ifI, simp add: unlockSkin_rel tickRel_refl)
  apply (rule tickRel_Let, erule tickRel_ifI, simp add: grantBadge_other_rel solarBadge_def tickRel_refl)
  apply (rule tickRel_Let, erule tickRel_ifI, simp add: grantBadge_other_rel solarBadge_def tickRel_refl)
  apply (rule tickRel_Let, erule tickRel_ifI, simp add: grantBadge_other_rel solarBadge_def tickRel_refl)
  apply (rule tickRel_Let, erule tickRel_ifI, simp add: grantBadge_solar_rel caughtAllPlanets_def tickRel_refl)
  apply (erule tickRel_ifI, simp add: grantBadge_other_rel solarBadge_def tickRel_refl)
  done

lemma maybeLevelUp_rel: "tickRel z s \<Longrightarrow> tickRel z (maybeLevelUp s)"
  by (erule tickRel_comp)
     (simp add: rel_defs maybeLevelUp_def Let_def setAnnouncement_def incrementEvent_def Ints_min)

lemma addScore_rel:
  "tickRel z s \<Longrightarrow> (good s \<Longrightarrow> 0 \<le> p) \<Longrightarrow> tickRel z (refreshHighScore (s\<lparr>score := score s + p\<rparr>))"
  by (erule tickRel_comp) (auto simp add: rel_defs refreshHighScore_def)

lemma createMission_good:
  "progress (createMission n d) = 0" "1 \<le> target (createMission n d)" "25 \<le> rewardPoints (createMission n d)"
  by (simp_all add: createMission_def Let_def split: prod.splits)

lemma createNextMission_rel: "tickRel z s \<Longrightarrow> tickRel z (createNextMission s)"
  apply (erule tickRel_comp)
  using createMission_good [of "Suc (missionSeed s)" "difficulty s"]
  apply (simp add: rel_defs createNextMission_def Let_def)
  done

lemma failMission_rel: "tickRel z s \<Longrightarrow> tickRel z (failMission s)"
  unfolding failMission_def by (intro createNextMission_rel setAnnouncement_rel)

lemma incrementEvent_rel:
  "tickRel z s \<Longrightarrow> k \<noteq> EvHit \<Longrightarrow> k \<noteq> EvShield \<Longrightarrow> tickRel z (incrementEvent s k)"
  by (erule tickRel_comp) (cases k; simp add: rel_defs incrementEvent_def)

lemma completeMission_rel: "tickRel z s \<Longrightarrow> tickRel z (completeMission s)"
  unfolding completeMission_def
  apply (subst Let_def)
  apply (rule tickRel_Let, rule maybeLevelUp_rel, rule addScore_rel, assumption)
   apply (simp add: good_def)
  apply (thin_tac "tickRel z s")
  apply (rule tickRel_Let, erule tickRel_comp, simp add: rel_defs)
  apply (thin_tac "tickRel z _")
  apply (rule tickRel_Let, erule tickRel_comp, simp add: rel_defs Ints_min)
  apply (thin_tac "tickRel z _")
  apply (rule tickRel_Let, erule tickRel_comp)
  subgoal for v1 v2 v3 using config_baseLives [of "difficulty v3"] by (simp add: rel_defs Ints_min)
  apply (thin_tac "tickRel z _")
  apply (rule tickRel_Let, rule setAnnouncement_rel, erule incrementEvent_rel, simp, simp)
  apply (thin_tac "tickRel z _")
  apply (intro createNextMission_rel checkUnlocksAndBadges_rel, assumption)
  done

lemma progressMission_rel: "tickRel z s \<Longrightarrow> 0 \<le> a \<Longrightarrow> tickRel z (progressMission s k a)"
  unfolding progressMission_def
  apply (cases "kind (currentMission s) \<noteq> k")
   apply simp
  apply (simp only: if_False)
  apply (subst Let_def)
  apply (rule tickRel_Let [where f = "\<lambda>v. if target (currentMission v) \<le> progress (currentMission v) then completeMission v else v"])
   apply (erule tickRel_comp, simp add: rel_defs)
  apply (thin_tac "tickRel z s")
  apply (erule tickRel_ifI, rule completeMission_rel [OF tickRel_refl])
  done

lemma collectPoints_rel: "tickRel z s \<Longrightarrow> tickRel z (collectPoints s p t)"
  unfolding collectPoints_def
  apply (subst Let_def)
  apply (rule tickRel_Let, rule maybeLevelUp_rel, erule addScore_rel, simp)
  apply (thin_tac "tickRel z s")
  apply (rule tickRel_Let, erule tickRel_comp, simp add: rel_defs)
  apply (thin_tac "tickRel z _")
  apply (rule tickRel_Let, erule tickRel_comp, simp add: rel_defs)
  apply (thin_tac "tickRel z _")
  apply (rule tickRel_Let, rule setAnnouncement_rel, erule incrementEvent_rel, simp, simp)
  apply (thin_tac "tickRel z _")
  apply (erule checkUnlocksAndBadges_rel)
  done

lemma impactPush_keep [simp]:
  "cooldownMs (impactPush p sc e) = cooldownMs e"
  "radius (impactPush p sc e) = radius e"
  "x (impactPush p sc e) = x e"
  "y (impactPush p sc e) = y e"
  "impactMs (impactPush p sc e) = impactMs e"
  "visible (impactPush p sc e) = visible e"
  by (simp_all add: impactPush_def Let_def)

lemma solarPull_keep [simp]:
  "cooldownMs (solarPull hx hy fs i e) = cooldownMs e"
  "radius (solarPull hx hy fs i e) = radius e"
  "x (solarPull hx hy fs i e) = x e"
  "y (solarPull hx hy fs i e) = y e"
  "impactMs (solarPull hx hy fs i e) = impactMs e"
  "visible (solarPull hx hy fs i e) = visible e"
  by (simp_all add: solarPull_def Let_def)

lemma clampVelocity_keep [simp]:
  "cooldownMs (clampVelocity e m) = cooldownMs e"
  "radius (clampVelocity e m) = radius e"
  "x (clampVelocity e m) = x e"
  "y (clampVelocity e m) = y e"
  "impactMs (clampVelocity e m) = impactMs e"
  "visible (clampVelocity e m) = visible e"
  by (simp_all add: clampVelocity_def Let_def)

lemma bounceInsideArena_keep [simp]:
  "cooldownMs (bounceInsideArena e w h ms bd) = cooldownMs e"
  "radius (bounceInsideArena e w h ms bd) = radius e"
  "impactMs (bounceInsideArena e w h ms bd) = impactMs e"
  "visible (bounceInsideArena e w h ms bd) = visible e"
  by (simp_all add: bounceInsideArena_def Let_def)

lemma triggerPlanetImpact_rel: "tickRel z s \<Longrightarrow> tickRel z (triggerPlanetImpact s src)"
  by (erule tickRel_comp) (simp add: rel_defs triggerPlanetImpact_def Let_def)

lemma applySolarInfluence_rel: "tickRel z s \<Longrightarrow> tickRel z (applySolarInfluence s fs)"
  by (erule tickRel_comp) (simp add: rel_defs applySolarInfluence_def Let_def)

lemma setMovingVelocities_rel: "tickRel z s \<Longrightarrow> tickRel z (setMovingVelocities f s)"
  by (erule tickRel_comp) (simp add: rel_defs setMovingVelocities_def)

lemma putC_rel: "tickRel z s \<Longrightarrow> tickRel z (putC slot c s)"
  by (erule tickRel_comp) (cases slot; simp add: rel_defs)

lemma collectibleAdvance_rel: "tickRel z s \<Longrightarrow> tickRel z (collectibleAdvance s slot fs)"
  unfolding collectibleAdvance_def Let_def by (intro putC_rel)

lemma hazardAdvance_rel: "tickRel z s \<Longrightarrow> tickRel z (hazardAdvance s fs)"
  by (erule tickRel_comp) (simp add: rel_defs hazardAdvance_def Let_def)


lemma tickRel_skip_real: "(\<And>v::real. tickRel z (f v)) \<Longrightarrow> tickRel z (Let a f)"
  by simp

lemma tickRel_skip_config: "(\<And>v::DifficultyConfig. tickRel z (f v)) \<Longrightarrow> tickRel z (Let a f)"
  by simp

lemma tickRel_skip_bool: "(\<And>v::bool. tickRel z (f v)) \<Longrightarrow> tickRel z (Let a f)"
  by simp

lemma tickRel_skip_vec: "(\<And>v::Vector. tickRel z (f v)) \<Longrightarrow> tickRel z (Let a f)"
  by simp

lemmas Let_skips = tickRel_skip_real tickRel_skip_config tickRel_skip_bool tickRel_skip_vec

lemma tickPlayer_rel: "tickRel z s \<Longrightarrow> tickRel z (tickPlayer s fs)"
  unfolding tickPlayer_def
  apply (rule Let_skips)+
  apply (rule tickRel_Let, erule tickRel_comp, simp add: rel_defs)
  apply (thin_tac "tickRel z s")
  apply (rule Let_skips)+
  apply (rule tickRel_Let, erule tickRel_comp, simp add: rel_defs)
  apply (thin_tac "tickRel z _")
  apply (rule tickRel_Let, erule tickRel_comp, simp add: rel_defs Let_def)
  apply (thin_tac "tickRel z _")
  apply (rule Let_skips)+
  apply (rule tickRel_Let, erule tickRel_comp, simp add: rel_defs)
  apply (thin_tac "tickRel z _")
  apply (rule tickRel_Let, erule tickRel_comp, simp add: rel_defs)
  apply (thin_tac "tickRel z _")
  apply (rule tickRel_Let, erule tickRel_comp, simp add: rel_defs)
  apply (thin_tac "tickRel z _")
  apply (rule tickRel_Let, erule tickRel_comp, simp add: rel_defs)
  apply (thin_tac "tickRel z _")
  apply (rule tickRel_Let, erule tickRel_comp, simp add: rel_defs isFinite_def)
  apply (thin_tac "tickRel z _")
  apply (rule Let_skips)+
  apply (erule tickRel_comp, simp add: rel_defs)
  done

lemma tickRel_if2: "tickRel z a \<Longrightarrow> tickRel z b \<Longrightarrow> tickRel z (if c then a else b)"
  by simp

lemma tickRel_skip_planet: "(\<And>v::ExtraPlanet. tickRel z (f v)) \<Longrightarrow> tickRel z (Let a f)"
  by simp

lemma tickRel_skip_list: "(\<And>v::DynamicEntity list. tickRel z (f v)) \<Longrightarrow> tickRel z (Let a f)"
  by simp

lemma tickRel_skip_mission: "(\<And>v::MissionState. tickRel z (f v)) \<Longrightarrow> tickRel z (Let a f)"
  by simp

lemma resolvePlanetPair_cooldown:
  "cooldownMs (fst (resolvePlanetPair a b)) = cooldownMs a"
  "cooldownMs (snd (resolvePlanetPair a b)) = cooldownMs b"
  by (simp_all add: resolvePlanetPair_def Let_def)

lemma map_update_same:
  assumes h: "f v = f (xs ! i)"
  shows "map f (xs[i := v]) = map f xs"
proof (cases "i < length xs")
  case True
  then show ?thesis using h by (simp add: map_update list_update_same_conv)
next
  case False
  then have "length xs \<le> i" by simp
  then show ?thesis by (simp add: list_update_beyond)
qed

lemma resolveAt_cooldown: "map cooldownMs (resolveAt ij ps) = map cooldownMs ps"
proof -
  obtain i j where ij: "ij = (i, j)" by (cases ij)
  obtain a b where ab: "resolvePlanetPair (ps ! i) (ps ! j) = (a, b)" by (cases "resolvePlanetPair (ps ! i) (ps ! j)")
  have ca: "cooldownMs a = cooldownMs (ps ! i)" and cb: "cooldownMs b = cooldownMs (ps ! j)"
    using resolvePlanetPair_cooldown [of "ps ! i" "ps ! j"] ab by simp_all
  have "map cooldownMs (ps[i := a, j := b]) = map cooldownMs (ps[i := a])"
  proof (cases "i = j")
    case True
    then show ?thesis using ca cb by (simp add: map_update)
  next
    case False
    then show ?thesis using cb by (intro map_update_same) simp
  qed
  also have "\<dots> = map cooldownMs ps" using ca by (intro map_update_same) simp
  finally show ?thesis by (simp add: resolveAt_def ij ab)
qed

lemma fold_resolveAt_cooldown: "map cooldownMs (fold resolveAt pairs ps) = map cooldownMs ps"
  by (induction pairs arbitrary: ps) (simp_all add: resolveAt_cooldown)

lemma resolved_hazard_cooldown:
  "cooldownMs (fold resolveAt pairs (getMovingPlanets s) ! 2) = cooldownMs (hazard s)"
proof -
  let ?r = "fold resolveAt pairs (getMovingPlanets s)"
  have m: "map cooldownMs ?r = map cooldownMs (getMovingPlanets s)" by (rule fold_resolveAt_cooldown)
  then have "length ?r = length (getMovingPlanets s)" by (metis length_map)
  then have l: "2 < length ?r" by (simp add: getMovingPlanets_def)
  have "cooldownMs (?r ! 2) = map cooldownMs ?r ! 2" using l by simp
  also have "\<dots> = map cooldownMs (getMovingPlanets s) ! 2" using m by simp
  also have "\<dots> = cooldownMs (hazard s)" by (simp add: getMovingPlanets_def asDynamic_def)
  finally show ?thesis .
qed

lemma resolvePlanetCollisions_rel: "tickRel z s \<Longrightarrow> tickRel z (resolvePlanetCollisions s)"
  by (erule tickRel_comp)
     (simp add: rel_defs resolvePlanetCollisions_def Let_def putDynamic_def resolved_hazard_cooldown)

lemma bumpCatch_jupiter [simp]: "jupiter (bumpCatch p c) = jupiter c"
  by (cases p) simp_all

lemma putP_rel: "tickRel z s \<Longrightarrow> tickRel z (putP i p s)"
  by (erule tickRel_comp) (simp add: rel_defs putP_def)

lemma applyExtraPlanetEffect_rel: "tickRel z s \<Longrightarrow> tickRel z (applyExtraPlanetEffect s p)"
  apply (erule tickRel_comp)
  using config_baseLives [of "difficulty s"]
  apply (simp add: rel_defs applyExtraPlanetEffect_def setAnnouncement_def setMovingVelocities_def
      Let_def Ints_min)
  done

lemma extraPlanetPickup_rel: "tickRel z s \<Longrightarrow> tickRel z (extraPlanetPickup s i rnd k)"
  unfolding extraPlanetPickup_def
  apply (rule tickRel_skip_planet)
  apply (rule tickRel_Let, erule collectPoints_rel)
  apply (thin_tac "tickRel z s")
  apply (rule tickRel_Let, erule setLearningFact_rel)
  apply (thin_tac "tickRel z _")
  apply (rule tickRel_Let, erule tickRel_comp, simp add: rel_defs)
  apply (thin_tac "tickRel z _")
  apply (rule tickRel_Let, erule applyExtraPlanetEffect_rel)
  apply (thin_tac "tickRel z _")
  apply (rule tickRel_Let, erule triggerPlanetImpact_rel)
  apply (thin_tac "tickRel z _")
  apply (rule tickRel_skip_vec)
  apply (erule putP_rel)
  done

lemma moveExtraPlanet_rel: "tickRel z s \<Longrightarrow> tickRel z (moveExtraPlanet d fs rnd k i s)"
  unfolding moveExtraPlanet_def
  apply (rule tickRel_skip_config)
  apply (rule tickRel_skip_planet)
  apply (rule tickRel_skip_real)
  apply (rule tickRel_skip_planet)
  apply (rule tickRel_Let, erule putP_rel)
  apply (thin_tac "tickRel z s")
  apply (rule tickRel_if2, erule putP_rel)
  apply (rule tickRel_skip_real)
  apply (rule tickRel_if2, assumption)
  apply (erule extraPlanetPickup_rel)
  done

lemma fold_rel:
  "(\<And>i v. tickRel z v \<Longrightarrow> tickRel z (f i v)) \<Longrightarrow> tickRel z s \<Longrightarrow> tickRel z (fold f xs s)"
  by (induction xs arbitrary: s) simp_all

lemma moveExtraPlanets_rel: "tickRel z s \<Longrightarrow> tickRel z (moveExtraPlanets s d fs rnd k)"
  unfolding moveExtraPlanets_def by (rule fold_rel) (auto intro: moveExtraPlanet_rel)

lemma collectiblePickup_rel: "tickRel z s \<Longrightarrow> tickRel z (collectiblePickup s slot rnd k)"
  unfolding collectiblePickup_def
  apply (rule tickRel_skip_real)
  apply (rule tickRel_Let)
   apply (rule tickRel_if2)
    apply (rule tickRel_Let, erule collectPoints_rel)
    apply (thin_tac "tickRel z s")
    apply (rule tickRel_Let, erule tickRel_comp, simp add: rel_defs)
    apply (thin_tac "tickRel z _")
    apply (rule progressMission_rel, erule setLearningFact_rel, simp)
   apply (rule tickRel_Let, erule collectPoints_rel)
   apply (thin_tac "tickRel z s")
   apply (rule tickRel_Let, erule tickRel_comp, simp add: rel_defs)
   apply (thin_tac "tickRel z _")
   apply (rule progressMission_rel, erule setLearningFact_rel, simp)
  apply (thin_tac "tickRel z s")
  apply (rule tickRel_Let, erule triggerPlanetImpact_rel)
  apply (thin_tac "tickRel z _")
  apply (rule tickRel_skip_vec)
  apply (erule putC_rel)
  done

lemma moveCollectible_rel: "tickRel z s \<Longrightarrow> tickRel z (moveCollectible s slot d fs rnd k)"
  unfolding moveCollectible_def
  apply (rule tickRel_Let, erule collectibleAdvance_rel)
  apply (thin_tac "tickRel z s")
  apply (rule tickRel_if2, erule putC_rel)
  apply (rule tickRel_skip_real)
  apply (rule tickRel_if2, erule collectiblePickup_rel, assumption)
  done

lemma homePickup_rel: "tickRel z s \<Longrightarrow> tickRel z (homePickup s rnd k)"
  unfolding homePickup_def
  apply (rule tickRel_skip_real)
  apply (rule tickRel_Let, erule collectPoints_rel)
  apply (thin_tac "tickRel z s")
  apply (rule tickRel_Let, erule tickRel_comp, simp add: rel_defs)
  apply (thin_tac "tickRel z _")
  apply (rule tickRel_Let, rule progressMission_rel, erule setLearningFact_rel, simp)
  apply (thin_tac "tickRel z _")
  apply (rule tickRel_Let, erule triggerPlanetImpact_rel)
  apply (thin_tac "tickRel z _")
  apply (rule tickRel_skip_vec)
  apply (erule tickRel_comp, simp add: rel_defs)
  done

lemma moveHome_rel: "tickRel z s \<Longrightarrow> tickRel z (moveHome s d rnd k)"
  unfolding moveHome_def
  apply (rule tickRel_Let, erule tickRel_comp, simp add: rel_defs)
  apply (thin_tac "tickRel z s")
  apply (rule tickRel_if2, erule tickRel_comp, simp add: rel_defs)
  apply (rule tickRel_skip_real)
  apply (rule tickRel_if2, erule homePickup_rel, assumption)
  done

lemma tickPickups_rel: "tickRel z s \<Longrightarrow> tickRel z (tickPickups s d fs rnd)"
  unfolding tickPickups_def Let_def
  by (intro moveHome_rel moveExtraPlanets_rel moveCollectible_rel applySolarInfluence_rel tickPlayer_rel)

lemma tickImpactTimers_rel: "tickRel z s \<Longrightarrow> tickRel z (tickImpactTimers s d)"
  by (erule tickRel_comp) (simp add: rel_defs tickImpactTimers_def Let_def)

lemma tickMission_rel: "tickRel z s \<Longrightarrow> 0 \<le> d \<Longrightarrow> tickRel z (tickMission s d)"
  unfolding tickMission_def
  apply (rule tickRel_Let, rule tickRel_if2, erule progressMission_rel, simp, assumption)
  apply (thin_tac "tickRel z s")
  apply (rule tickRel_Let, erule tickRel_comp, simp add: rel_defs)
  apply (thin_tac "tickRel z _")
  apply (rule tickRel_if2, erule failMission_rel, assumption)
  done

lemma tickTexts_rel: "tickRel z s \<Longrightarrow> tickRel z (tickTexts s d)"
  unfolding tickTexts_def
  apply (rule tickRel_Let, erule tickRel_comp, simp add: rel_defs Let_def)
  apply (thin_tac "tickRel z s")
  apply (rule tickRel_Let, erule tickRel_comp, force simp add: rel_defs Let_def)
  apply (thin_tac "tickRel z _")
  apply (erule tickRel_comp, simp add: rel_defs Let_def)
  done

lemma tickSessionReminder_rel: "tickRel z s \<Longrightarrow> tickRel z (tickSessionReminder s d)"
  by (erule tickRel_comp) (simp add: rel_defs tickSessionReminder_def Let_def setAnnouncement_def)

lemma tickTimers_rel: "tickRel z s \<Longrightarrow> 0 \<le> d \<Longrightarrow> tickRel z (tickTimers s d)"
  unfolding tickTimers_def
  by (intro checkUnlocksAndBadges_rel tickSessionReminder_rel tickTexts_rel tickMission_rel
      tickImpactTimers_rel)

section \<open>The hazard and the whole tick\<close>

lemma Let_cbv: "a = b \<Longrightarrow> f b = rhs \<Longrightarrow> Let a f = rhs"
  by simp

lemma if_cbv_T: "c \<Longrightarrow> a = rhs \<Longrightarrow> (if c then a else b) = rhs"
  by simp

lemma if_cbv_F: "\<not> c \<Longrightarrow> b = rhs \<Longrightarrow> (if c then a else b) = rhs"
  by simp

lemma triggerPlanetImpact_fields [simp]:
  "difficulty (triggerPlanetImpact s src) = difficulty s"
  "length (extraPlanets (triggerPlanetImpact s src)) = length (extraPlanets s)"
  "eventSignal (triggerPlanetImpact s src) = eventSignal s"
  "score (triggerPlanetImpact s src) = score s"
  "highScore (triggerPlanetImpact s src) = highScore s"
  "planetCatches (triggerPlanetImpact s src) = planetCatches s"
  "badges (triggerPlanetImpact s src) = badges s"
  "combo (triggerPlanetImpact s src) = combo s"
  "lives (triggerPlanetImpact s src) = lives s"
  "shieldCharges (triggerPlanetImpact s src) = shieldCharges s"
  "invulnerabilityMs (triggerPlanetImpact s src) = invulnerabilityMs s"
  "secondChanceUsed (triggerPlanetImpact s src) = secondChanceUsed s"
  "isGameOver (triggerPlanetImpact s src) = isGameOver s"
  "isPaused (triggerPlanetImpact s src) = isPaused s"
  "currentMission (triggerPlanetImpact s src) = currentMission s"
  "player (triggerPlanetImpact s src) = player s"
  "input (triggerPlanetImpact s src) = input s"
  "arenaWidth (triggerPlanetImpact s src) = arenaWidth s"
  "arenaHeight (triggerPlanetImpact s src) = arenaHeight s"
  "planetChainMs (triggerPlanetImpact s src) = 220"
  "cooldownMs (hazard (triggerPlanetImpact s src)) = cooldownMs (hazard s)"
  "radius (hazard (triggerPlanetImpact s src)) = radius (hazard s)"
  "impactMs (hazard (triggerPlanetImpact s src)) = flash (src = Jupiter) (impactMs (hazard s))"
  by (simp_all add: triggerPlanetImpact_def Let_def)

lemma impact_fields:
  assumes "t = triggerPlanetImpact (s\<lparr>planetCatches := (planetCatches s)\<lparr>jupiter := jupiter (planetCatches s) + 1\<rparr>\<rparr>) Jupiter"
  shows "invulnerabilityMs t = invulnerabilityMs s" "shieldCharges t = shieldCharges s"
    "arenaWidth t = arenaWidth s" "arenaHeight t = arenaHeight s"
    "radius (hazard t) = radius (hazard s)" "eventSignal t = eventSignal s" "lives t = lives s"
    "secondChanceUsed t = secondChanceUsed s" "player t = player s"
  using assms by simp_all

lemma hazardCollision_invulnerable:
  assumes "t = triggerPlanetImpact (s\<lparr>planetCatches := (planetCatches s)\<lparr>jupiter := jupiter (planetCatches s) + 1\<rparr>\<rparr>) Jupiter"
    and "0 < invulnerabilityMs s"
  shows "hazardCollision s rnd k = t\<lparr>hazard := (hazard t)\<lparr>cooldownMs := 500\<rparr>\<rparr>"
  unfolding hazardCollision_def
  apply (rule Let_cbv, rule refl)
  apply (rule Let_cbv, rule assms(1) [symmetric])
  apply (rule if_cbv_T, insert assms(2), simp add: impact_fields [OF assms(1)])[1]
  apply (rule refl)
  done

lemma hazardCollision_shielded:
  assumes "t = triggerPlanetImpact (s\<lparr>planetCatches := (planetCatches s)\<lparr>jupiter := jupiter (planetCatches s) + 1\<rparr>\<rparr>) Jupiter"
    and "\<not> 0 < invulnerabilityMs s" and "0 < shieldCharges s"
  shows "hazardCollision s rnd k =
    t\<lparr>shieldCharges := shieldCharges s - 1, invulnerabilityMs := SHIELD_INVULNERABILITY_MS,
      eventSignal := bumpEvent EvShield (eventSignal s),
      announcement := ''Kalkan seni korudu!'', announcementTimerMs := 1100,
      learningFact := PLANET_FACTS Jupiter, learningFactTimerMs := 6200,
      hazard := (hazard t)\<lparr>
        x := x (randomPosition (arenaWidth s) (arenaHeight s) (radius (hazard s)) rnd k),
        y := y (randomPosition (arenaWidth s) (arenaHeight s) (radius (hazard s)) rnd k),
        cooldownMs := 900\<rparr>\<rparr>"
  unfolding hazardCollision_def
  apply (rule Let_cbv, rule refl)
  apply (rule Let_cbv, rule assms(1) [symmetric])
  apply (rule if_cbv_F, insert assms(2), simp add: impact_fields [OF assms(1)])[1]
  apply (rule if_cbv_T, insert assms(3), simp add: impact_fields [OF assms(1)])[1]
  apply (rule Let_cbv, simp add: impact_fields [OF assms(1)])
  apply (rule Let_cbv, simp add: impact_fields [OF assms(1)] setAnnouncement_def setLearningFact_def incrementEvent_def)
  apply (rule Let_cbv, simp add: impact_fields [OF assms(1)])
  apply (simp add: impact_fields [OF assms(1)])
  done

lemma hazardCollision_hit:
  assumes "t = triggerPlanetImpact (s\<lparr>planetCatches := (planetCatches s)\<lparr>jupiter := jupiter (planetCatches s) + 1\<rparr>\<rparr>) Jupiter"
    and "\<not> 0 < invulnerabilityMs s" and "\<not> 0 < shieldCharges s"
    and "u = t\<lparr>lives := lives s - 1, combo := 1, comboTimerMs := 0,
      invulnerabilityMs := HIT_INVULNERABILITY_MS,
      eventSignal := bumpEvent EvHit (eventSignal s),
      announcement := ''Dikkat! Jupiter firtinasina carptin.'', announcementTimerMs := 1200,
      learningFact := PLANET_FACTS Jupiter, learningFactTimerMs := 6200,
      hazard := (hazard t)\<lparr>
        x := x (randomPosition (arenaWidth s) (arenaHeight s) (radius (hazard s)) rnd k),
        y := y (randomPosition (arenaWidth s) (arenaHeight s) (radius (hazard s)) rnd k),
        cooldownMs := 1200\<rparr>\<rparr>"
    and "\<not> lives s - 1 \<le> 0"
  shows "hazardCollision s rnd k = u"
  unfolding hazardCollision_def assms(4)
  apply (rule Let_cbv, rule refl)
  apply (rule Let_cbv, rule assms(1) [symmetric])
  apply (rule if_cbv_F, insert assms(2), simp add: impact_fields [OF assms(1)])[1]
  apply (rule if_cbv_F, insert assms(3), simp add: impact_fields [OF assms(1)])[1]
  apply (rule Let_cbv, simp add: impact_fields [OF assms(1)])
  apply (rule Let_cbv, simp add: impact_fields [OF assms(1)] setAnnouncement_def setLearningFact_def incrementEvent_def)
  apply (rule Let_cbv, simp add: impact_fields [OF assms(1)])
  apply (rule Let_cbv, simp add: impact_fields [OF assms(1)])
  apply (rule if_cbv_F, insert assms(5), simp add: impact_fields [OF assms(1)])[1]
  apply simp
  done

lemma hazardCollision_secondChance:
  assumes "t = triggerPlanetImpact (s\<lparr>planetCatches := (planetCatches s)\<lparr>jupiter := jupiter (planetCatches s) + 1\<rparr>\<rparr>) Jupiter"
    and "\<not> 0 < invulnerabilityMs s" and "\<not> 0 < shieldCharges s"
    and "u = t\<lparr>lives := lives s - 1, combo := 1, comboTimerMs := 0,
      invulnerabilityMs := HIT_INVULNERABILITY_MS,
      eventSignal := bumpEvent EvHit (eventSignal s),
      announcement := ''Dikkat! Jupiter firtinasina carptin.'', announcementTimerMs := 1200,
      learningFact := PLANET_FACTS Jupiter, learningFactTimerMs := 6200,
      hazard := (hazard t)\<lparr>
        x := x (randomPosition (arenaWidth s) (arenaHeight s) (radius (hazard s)) rnd k),
        y := y (randomPosition (arenaWidth s) (arenaHeight s) (radius (hazard s)) rnd k),
        cooldownMs := 1200\<rparr>\<rparr>"
    and "lives s - 1 \<le> 0" and "\<not> secondChanceUsed s"
  shows "hazardCollision s rnd k =
    u\<lparr>secondChanceUsed := True, lives := 1, shieldCharges := max (shieldCharges s) 1,
      invulnerabilityMs := 2600, eventSignal := bumpEvent EvShield (bumpEvent EvHit (eventSignal s)),
      announcement := ''Son sans devrede! Devam et!'', announcementTimerMs := 1800\<rparr>"
  unfolding hazardCollision_def assms(4)
  apply (rule Let_cbv, rule refl)
  apply (rule Let_cbv, rule assms(1) [symmetric])
  apply (rule if_cbv_F, insert assms(2), simp add: impact_fields [OF assms(1)])[1]
  apply (rule if_cbv_F, insert assms(3), simp add: impact_fields [OF assms(1)])[1]
  apply (rule Let_cbv, simp add: impact_fields [OF assms(1)])
  apply (rule Let_cbv, simp add: impact_fields [OF assms(1)] setAnnouncement_def setLearningFact_def incrementEvent_def)
  apply (rule Let_cbv, simp add: impact_fields [OF assms(1)])
  apply (rule Let_cbv, simp add: impact_fields [OF assms(1)])
  apply (rule if_cbv_T, insert assms(5), simp add: impact_fields [OF assms(1)])[1]
  apply (rule if_cbv_T, insert assms(6), simp add: impact_fields [OF assms(1)])[1]
  apply (rule Let_cbv, simp add: impact_fields [OF assms(1)])
  apply (simp add: impact_fields [OF assms(1)] setAnnouncement_def incrementEvent_def)
  done

lemma hazardCollision_gameOver:
  assumes "t = triggerPlanetImpact (s\<lparr>planetCatches := (planetCatches s)\<lparr>jupiter := jupiter (planetCatches s) + 1\<rparr>\<rparr>) Jupiter"
    and "\<not> 0 < invulnerabilityMs s" and "\<not> 0 < shieldCharges s"
    and "u = t\<lparr>lives := lives s - 1, combo := 1, comboTimerMs := 0,
      invulnerabilityMs := HIT_INVULNERABILITY_MS,
      eventSignal := bumpEvent EvHit (eventSignal s),
      announcement := ''Dikkat! Jupiter firtinasina carptin.'', announcementTimerMs := 1200,
      learningFact := PLANET_FACTS Jupiter, learningFactTimerMs := 6200,
      hazard := (hazard t)\<lparr>
        x := x (randomPosition (arenaWidth s) (arenaHeight s) (radius (hazard s)) rnd k),
        y := y (randomPosition (arenaWidth s) (arenaHeight s) (radius (hazard s)) rnd k),
        cooldownMs := 1200\<rparr>\<rparr>"
    and "lives s - 1 \<le> 0" and "secondChanceUsed s"
  shows "hazardCollision s rnd k =
    u\<lparr>isGameOver := True, isPaused := True, input := zeroVector,
      player := (player s)\<lparr>vx := 0, vy := 0\<rparr>,
      announcement := ''Gorev bitti! Yeniden basla.'', announcementTimerMs := 2500\<rparr>"
  unfolding hazardCollision_def assms(4)
  apply (rule Let_cbv, rule refl)
  apply (rule Let_cbv, rule assms(1) [symmetric])
  apply (rule if_cbv_F, insert assms(2), simp add: impact_fields [OF assms(1)])[1]
  apply (rule if_cbv_F, insert assms(3), simp add: impact_fields [OF assms(1)])[1]
  apply (rule Let_cbv, simp add: impact_fields [OF assms(1)])
  apply (rule Let_cbv, simp add: impact_fields [OF assms(1)] setAnnouncement_def setLearningFact_def incrementEvent_def)
  apply (rule Let_cbv, simp add: impact_fields [OF assms(1)])
  apply (rule Let_cbv, simp add: impact_fields [OF assms(1)])
  apply (rule if_cbv_T, insert assms(5), simp add: impact_fields [OF assms(1)])[1]
  apply (rule if_cbv_F, insert assms(6), simp add: impact_fields [OF assms(1)])[1]
  apply (rule Let_cbv, simp add: impact_fields [OF assms(1)])
  apply (simp add: impact_fields [OF assms(1)] setAnnouncement_def)
  done

lemma weakRel_trans: "weakRel s t \<Longrightarrow> weakRel t u \<Longrightarrow> weakRel s u"
  unfolding weakRel_def
  apply (intro conjI)
               apply (simp_all (no_asm_simp))
   apply (elim conjE, erule (1) hsStep_trans)
  apply auto
  done

lemma tickRel_weakRel: "tickRel s t \<Longrightarrow> good s \<Longrightarrow> weakRel s t"
  unfolding weakRel_def tickRel_def frameRel_def monoRel_def solarRel_def scoreRel_def by auto

lemma weakRel_refl: "good s \<Longrightarrow> weakRel s s"
  by (simp add: weakRel_def hsStep_refl)

lemma weakRel_good: "weakRel s t \<Longrightarrow> good t"
  by (simp add: weakRel_def)

lemma hazardCollision_weak:
  assumes g: "good s" and n: "\<not> isGameOver s"
  shows "weakRel s (hazardCollision s rnd k)"
proof -
  define t where "t = triggerPlanetImpact (s\<lparr>planetCatches := (planetCatches s)\<lparr>jupiter := jupiter (planetCatches s) + 1\<rparr>\<rparr>) Jupiter"
  have l1: "1 \<le> lives s" "lives s \<in> \<int>" "shieldCharges s \<in> \<int>" using g n by (simp_all add: good_def)
  show ?thesis
  proof (cases "0 < invulnerabilityMs s")
    case True
    show ?thesis
      unfolding hazardCollision_invulnerable [OF t_def True]
      using g by (simp add: t_def weakRel_def hsStep_def good_def)
  next
    case inv: False
    show ?thesis
    proof (cases "0 < shieldCharges s")
      case True
      have "1 \<le> shieldCharges s" using True l1 by (simp add: Ints_pos_ge1)
      then show ?thesis
        unfolding hazardCollision_shielded [OF t_def inv True]
        using g by (simp add: t_def weakRel_def hsStep_def good_def)
    next
      case sh: False
      show ?thesis
      proof (cases "lives s - 1 \<le> 0")
        case False
        then have "1 \<le> lives s - 1" using l1 by (intro Ints_pos_ge1) simp_all
        then show ?thesis
          unfolding hazardCollision_hit [OF t_def inv sh refl False]
          using g by (simp add: t_def weakRel_def hsStep_def good_def)
      next
        case True
        show ?thesis
        proof (cases "secondChanceUsed s")
          case False
          show ?thesis
            unfolding hazardCollision_secondChance [OF t_def inv sh refl True False]
            using g l1 by (simp add: t_def weakRel_def hsStep_def good_def Ints_max)
        next
          case sc: True
          show ?thesis
            unfolding hazardCollision_gameOver [OF t_def inv sh refl True sc]
            using g l1 by (simp add: t_def weakRel_def hsStep_def good_def)
        qed
      qed
    qed
  qed
qed

lemma hazardAdvance_fields [simp]:
  "isGameOver (hazardAdvance s fs) = isGameOver s"
  "player (hazardAdvance s fs) = player s"
  "planetCatches (hazardAdvance s fs) = planetCatches s"
  "cooldownMs (hazard (hazardAdvance s fs)) = cooldownMs (hazard s)"
  "radius (hazard (hazardAdvance s fs)) = radius (hazard s)"
  by (simp_all add: hazardAdvance_def Let_def)

lemma moveHazard_weak:
  assumes g: "good s" and n: "\<not> isGameOver s"
  shows "weakRel s (moveHazard s d fs rnd k)"
proof -
  let ?a = "hazardAdvance s fs"
  have ta: "tickRel s ?a" by (intro hazardAdvance_rel tickRel_refl)
  then have wa: "weakRel s ?a" using g by (rule tickRel_weakRel)
  have ga: "good ?a" using wa by (rule weakRel_good)
  have na: "\<not> isGameOver ?a" using n by simp
  have c1: "weakRel s (?a\<lparr>hazard := (hazard ?a)\<lparr>cooldownMs := max 0 (cooldownMs (hazard ?a) - d)\<rparr>\<rparr>)"
    using wa by (simp add: weakRel_def hsStep_def good_def)
  have c2: "weakRel s (hazardCollision ?a rnd k)"
    using wa hazardCollision_weak [OF ga na] by (rule weakRel_trans)
  show ?thesis
    unfolding moveHazard_def Let_def using c1 c2 wa by simp
qed

lemma clampDelta_bounds: "8 \<le> clampDelta p" "clampDelta p \<le> 48"
  by (simp_all add: clampDelta_def)

lemma tickPickups_gameOver: "isGameOver (tickPickups s d fs rnd) = isGameOver s"
  using tickPickups_rel [OF tickRel_refl, of s d fs rnd] by (simp add: tickRel_def frameRel_def)

lemma tick_weak: "good s \<Longrightarrow> weakRel s (tick s p rnd)"
proof (cases "isPaused s \<or> isGameOver s \<or> showBreakReminder s")
  case True
  assume "good s"
  then show ?thesis using True by (simp add: tick_def weakRel_refl)
next
  case False
  assume g: "good s"
  let ?d = "clampDelta p"
  let ?fs = "?d / 16.6667"
  let ?s1 = "tickPickups s ?d ?fs rnd"
  let ?s2 = "moveHazard ?s1 ?d ?fs rnd (homeDraw s + 2)"
  let ?s3 = "resolvePlanetCollisions ?s2"
  have t1: "tickRel s ?s1" by (intro tickPickups_rel tickRel_refl)
  have g1: "good ?s1" using t1 g by (rule tickRel_good)
  have n1: "\<not> isGameOver ?s1" using False tickPickups_gameOver by simp
  have w2: "weakRel ?s1 ?s2" using g1 n1 by (rule moveHazard_weak)
  have g2: "good ?s2" using w2 by (rule weakRel_good)
  have t3: "tickRel ?s2 (tickTimers ?s3 ?d)"
    using clampDelta_bounds [of p]
    by (intro tickTimers_rel resolvePlanetCollisions_rel tickRel_refl) simp_all
  have "weakRel s (tickTimers ?s3 ?d)"
    using tickRel_weakRel [OF t1 g] w2 tickRel_weakRel [OF t3 g2] weakRel_trans by blast
  then show ?thesis using False by (simp add: tick_def Let_def)
qed

lemma setupRound_good: "good (setupRound s m rnd)"
  using config_baseLives [of "difficulty s"] config_baseShield [of "difficulty s"]
    createMission_good [of "Suc (missionSeed s)" "difficulty s"]
  by (simp add: good_def setupRound_def Let_def setAnnouncement_def)

lemma createInitialState_good: "good (createInitialState stored rnd)"
  using config_baseLives [of Normal] config_baseShield [of Normal] createMission_good [of 0 Normal]
  by (simp add: good_def createInitialState_def Let_def)

lemma reduce_good: "good s \<Longrightarrow> good (reduce s cmd)"
proof (cases cmd)
  case (Tick p rnd)
  assume "good s"
  then show ?thesis using Tick weakRel_good [OF tick_weak] by simp
next
  case (SetDifficulty d rnd)
  assume "good s"
  then show ?thesis using SetDifficulty by (simp add: setDifficulty_def setupRound_good)
next
  case (RestartGame rnd)
  then show ?thesis by (simp add: restartGame_def setupRound_good)
next
  case (SetArenaSize w h)
  assume "good s"
  then show ?thesis using SetArenaSize by (simp add: setArenaSize_def Let_def good_def)
next
  case (NudgePlayer v)
  assume "good s"
  then show ?thesis using NudgePlayer by (auto simp add: nudgePlayer_def Let_def good_def)
qed (auto simp add: good_def setInput_def setControlSide_def setSoundVolume_def setVibrationEnabled_def
      setSessionReminderEnabled_def setSessionReminderMinutes_def dismissBreakReminder_def
      selectRocketSkin_def stopPlayer_def resetPlayerPosition_def togglePause_def
      setAnnouncement_def Let_def)

lemma run_snoc: "run s (cmds @ [cmd]) = reduce (run s cmds) cmd"
  by (simp add: run_def)

lemma run_good: "good s \<Longrightarrow> good (run s cmds)"
  by (induction cmds rule: rev_induct) (simp_all add: run_def reduce_good)

lemma run_initial_good: "good (run (createInitialState stored rnd) cmds)"
  by (rule run_good [OF createInitialState_good])

section \<open>Restart\<close>

lemma setupRound_fields:
  "score (setupRound s m r) = 0"
  "lives (setupRound s m r) = baseLives (getDifficultyConfig (difficulty s))"
  "GameState.level (setupRound s m r) = 1"
  "highScore (setupRound s m r) = highScore s"
  "unlockedSkins (setupRound s m r) = unlockedSkins s"
  "badges (setupRound s m r) = badges s"
  "settings (setupRound s m r) = settings s"
  "eventSignal (setupRound s m r) = emptyEventSignal"
  by (simp_all add: setupRound_def Let_def setAnnouncement_def)

text \<open>
  C2. A restart followed by no tick gives score 0, the base lives of the current
  difficulty and level 1, and leaves the high score, the unlocked skins, the badges and
  the settings as they were. This holds from every state, reachable or not.
\<close>

theorem restart_round_trip:
  "score (run s [RestartGame rnd]) = 0 \<and>
   lives (run s [RestartGame rnd]) = baseLives (getDifficultyConfig (difficulty s)) \<and>
   GameState.level (run s [RestartGame rnd]) = 1 \<and>
   highScore (run s [RestartGame rnd]) = highScore s \<and>
   unlockedSkins (run s [RestartGame rnd]) = unlockedSkins s \<and>
   badges (run s [RestartGame rnd]) = badges s \<and>
   settings (run s [RestartGame rnd]) = settings s"
  by (simp add: run_def restartGame_def setupRound_fields)

end
